theory Spec2Isabelle
  imports Complex_Main "HOL-Library.Word" "HOL-Library.Log_Nat"
begin

section \<open>Go values used by \<^verbatim>\<open>pkg/hpa/client.go\<close>\<close>

text \<open>
  The package under verification is \<^verbatim>\<open>pkg/hpa/client.go\<close>: the bootstrap of a
  HorizontalPodAutoscaler (HPA) for a tortoise, the rewrite of its metric targets and the
  phase-gated computation of its replica bounds. Go's \<^verbatim>\<open>int32\<close> is a 32-bit word read
  as two's complement, Go's \<^verbatim>\<open>int\<close> (hours) is only compared and is an \<open>int\<close> here,
  strings are \<open>string\<close>, a pointer that may be nil is an \<open>option\<close>, and a nil
  dereference is the outcome \<open>Panics\<close>.
\<close>

type_synonym int32 = "32 word"

datatype 'a exec = Panics | Returns 'a

subsection \<open>Errors\<close>

text \<open>
  \<^verbatim>\<open>errors.New(s)\<close> and \<^verbatim>\<open>fmt.Errorf(s)\<close> without a wrapped error are \<open>Msg s\<close>;
  \<^verbatim>\<open>fmt.Errorf("s: %w", err)\<close> is \<open>Wrap s err\<close>;
  \<^verbatim>\<open>fmt.Errorf("non supported resource type: %s", k)\<close> is \<open>NonSupportedResourceType k\<close>.
  Errors of the API client are \<open>ApiError\<close>; \<^verbatim>\<open>apierrors.IsAlreadyExists\<close> recognises
  \<open>AlreadyExists\<close>, also inside the errors that wrap it, and is false of nil.
\<close>

datatype api_error = AlreadyExists | NotFound | Conflict | OtherApiError string

datatype error =
    Msg string
  | Wrap string error
  | NonSupportedResourceType string
  | ApiError api_error

fun isAlreadyExistsError :: "error \<Rightarrow> bool" where
  "isAlreadyExistsError (ApiError e) = (e = AlreadyExists)"
| "isAlreadyExistsError (Wrap s err) = isAlreadyExistsError err"
| "isAlreadyExistsError (Msg s) = False"
| "isAlreadyExistsError (NonSupportedResourceType k) = False"

definition IsAlreadyExists :: "error option \<Rightarrow> bool" where
  "IsAlreadyExists err = (case err of None \<Rightarrow> False | Some e \<Rightarrow> isAlreadyExistsError e)"

subsection \<open>float64\<close>

text \<open>
  A \<^verbatim>\<open>float64\<close> is a finite binary floating-point number \<open>m * 2 ^ e\<close>, an infinity or a
  NaN. A finite value of the format has a significand of at most 53 bits and an exponent
  between \<open>-1074\<close> and \<open>971\<close> (\<open>valid_float64\<close>). The sign of zero is not represented:
  nothing in this package observes it. Arithmetic rounds to nearest, ties to even, as
  IEEE 754 and the Go specification prescribe.
\<close>

datatype float64 = Finite int int | PosInf | NegInf | NaN

fun valid_float64 :: "float64 \<Rightarrow> bool" where
  "valid_float64 (Finite m e) = (\<bar>m\<bar> < 2 ^ 53 \<and> - 1074 \<le> e \<and> e \<le> 971)"
| "valid_float64 _ = True"

fun float64_value :: "float64 \<Rightarrow> real" where
  "float64_value (Finite m e) = (if 0 \<le> e then of_int m * 2 ^ nat e else of_int m / 2 ^ nat (- e))"
| "float64_value _ = 0"

fun is_finite :: "float64 \<Rightarrow> bool" where
  "is_finite (Finite m e) = True"
| "is_finite _ = False"

text \<open>\<open>round_nearest_even M s\<close> is the integer nearest to \<open>M / 2 ^ s\<close>, ties to even.\<close>

definition round_nearest_even :: "int \<Rightarrow> nat \<Rightarrow> int" where
  "round_nearest_even M s =
     (let q = M div 2 ^ s; r = M mod 2 ^ s in
      if 2 * r < 2 ^ s then q
      else if 2 ^ s < 2 * r then q + 1
      else if even q then q else q + 1)"

text \<open>
  \<open>float64_round M E\<close> is the \<^verbatim>\<open>float64\<close> nearest to the exact value \<open>M * 2 ^ E\<close>:
  the significand keeps 53 bits (fewer in the subnormal range, where the exponent stops
  at \<open>-1074\<close>), and a rounded magnitude of \<open>2 ^ 1024\<close> or more overflows to an infinity.
\<close>

definition float64_round :: "int \<Rightarrow> int \<Rightarrow> float64" where
  "float64_round M E =
     (let s = max (bitlen \<bar>M\<bar> - 53) (- 1074 - E);
          M' = (if s \<le> 0 then M else round_nearest_even M (nat s));
          E' = (if s \<le> 0 then E else E + s)
      in if 1024 < bitlen \<bar>M'\<bar> + E' then (if 0 < M then PosInf else NegInf)
         else Finite M' E')"

text \<open>\<^verbatim>\<open>float64(x)\<close> for an \<^verbatim>\<open>int32\<close> \<open>x\<close>: exact, 32 bits fit in the significand.\<close>

definition float64_of_int32 :: "int32 \<Rightarrow> float64" where
  "float64_of_int32 x = Finite (sint x) 0"

text \<open>The product \<^verbatim>\<open>x * y\<close> of two \<^verbatim>\<open>float64\<close> values.\<close>

fun float64_mul :: "float64 \<Rightarrow> float64 \<Rightarrow> float64" where
  "float64_mul (Finite m1 e1) (Finite m2 e2) = float64_round (m1 * m2) (e1 + e2)"
| "float64_mul NaN y = NaN"
| "float64_mul x NaN = NaN"
| "float64_mul (Finite m e) PosInf = (if m = 0 then NaN else if 0 < m then PosInf else NegInf)"
| "float64_mul (Finite m e) NegInf = (if m = 0 then NaN else if 0 < m then NegInf else PosInf)"
| "float64_mul PosInf (Finite m e) = (if m = 0 then NaN else if 0 < m then PosInf else NegInf)"
| "float64_mul NegInf (Finite m e) = (if m = 0 then NaN else if 0 < m then NegInf else PosInf)"
| "float64_mul PosInf PosInf = PosInf"
| "float64_mul PosInf NegInf = NegInf"
| "float64_mul NegInf PosInf = NegInf"
| "float64_mul NegInf NegInf = PosInf"

text \<open>The integer part of a finite value, the fraction discarded (towards zero).\<close>

definition trunc_toward_zero :: "int \<Rightarrow> int \<Rightarrow> int" where
  "trunc_toward_zero m e =
     (if 0 \<le> e then m * 2 ^ nat e else sgn m * (\<bar>m\<bar> div 2 ^ nat (- e)))"

text \<open>\<^verbatim>\<open>math.Trunc\<close>: the integer part; infinities and NaN are returned unchanged.\<close>

fun Trunc :: "float64 \<Rightarrow> float64" where
  "Trunc (Finite m e) = Finite (trunc_toward_zero m e) 0"
| "Trunc x = x"

text \<open>
  \<^verbatim>\<open>int32(x)\<close> for a \<^verbatim>\<open>float64\<close> \<open>x\<close>: the fraction is discarded; when the result
  is not representable in \<^verbatim>\<open>int32\<close> (also for infinities and NaN) the Go specification
  leaves the value to the implementation, which is the parameter \<open>arch\<close> here.
\<close>

fun int32_of_float64 :: "(float64 \<Rightarrow> int32) \<Rightarrow> float64 \<Rightarrow> int32" where
  "int32_of_float64 arch (Finite m e) =
     (let t = trunc_toward_zero m e in
      if - (2 ^ 31) \<le> t \<and> t < 2 ^ 31 then word_of_int t else arch (Finite m e))"
| "int32_of_float64 arch x = arch x"

text \<open>
  \<^verbatim>\<open>x / 2.0\<close>: halving lowers the exponent by one; the result is rounded only where it
  leaves the format (the subnormal range).
\<close>

fun float64_div_2 :: "float64 \<Rightarrow> float64" where
  "float64_div_2 (Finite m e) = float64_round m (e - 1)"
| "float64_div_2 x = x"

text \<open>\<^verbatim>\<open>math.Ceil\<close>: the least integer not below the value.\<close>

fun Ceil :: "float64 \<Rightarrow> float64" where
  "Ceil (Finite m e) =
     Finite (if 0 \<le> e then m * 2 ^ nat e else - ((- m) div 2 ^ nat (- e))) 0"
| "Ceil x = x"

subsection \<open>Time\<close>

text \<open>
  Of \<^verbatim>\<open>time.Time\<close> the package reads \<^verbatim>\<open>Hour()\<close> and \<^verbatim>\<open>Weekday()\<close> only.
\<close>

datatype Weekday = Sunday | Monday | Tuesday | Wednesday | Thursday | Friday | Saturday

record Time =
  Hour :: int
  Weekday :: Weekday

section \<open>The Kubernetes API types read and written by the package\<close>

text \<open>
  The types of \<^verbatim>\<open>k8s.io/api/autoscaling/v2\<close>, restricted to the fields the package
  reads or writes; a field the package never touches is left out, so "unchanged" below
  means unchanged in every field it could touch. Nested Go structs are flattened into
  field names that spell the path (\<open>Spec_MinReplicas\<close> is \<^verbatim>\<open>Spec.MinReplicas\<close>).
\<close>

type_synonym ResourceName = string

definition ResourceCPU :: ResourceName where
  "ResourceCPU = ''cpu''"

definition ResourceMemory :: ResourceName where
  "ResourceMemory = ''memory''"

text \<open>
  \<^verbatim>\<open>resource.Quantity\<close>: an integer amount with a decimal scale and a display format.
  \<^verbatim>\<open>Set(v)\<close> stores the amount \<open>v\<close> at scale 0 and keeps the format;
  \<^verbatim>\<open>MustParse("50")\<close> and \<^verbatim>\<open>MustParse("90")\<close> are the plain decimal integers.
\<close>

datatype Format = DecimalExponent | BinarySI | DecimalSI

record Quantity =
  Amount :: int
  Scale :: int
  QuantityFormat :: Format

definition Quantity_Set :: "Quantity \<Rightarrow> int \<Rightarrow> Quantity" where
  "Quantity_Set q v = q\<lparr>Amount := v, Scale := 0\<rparr>"

definition MustParse_50 :: Quantity where
  "MustParse_50 = \<lparr>Amount = 50, Scale = 0, QuantityFormat = DecimalSI\<rparr>"

definition MustParse_90 :: Quantity where
  "MustParse_90 = \<lparr>Amount = 90, Scale = 0, QuantityFormat = DecimalSI\<rparr>"

datatype MetricTargetType = UtilizationMetricType | ValueMetricType | AverageValueMetricType

record MetricTarget =
  TargetType :: MetricTargetType
  TargetValue :: "Quantity option"
  AverageValue :: "Quantity option"
  AverageUtilization :: "int32 option"

record ContainerResourceMetricSource =
  ContainerResourceName :: ResourceName
  ContainerResourceTarget :: MetricTarget
  Container :: string

record ExternalMetricSource =
  Metric_Name :: string
  ExternalTarget :: MetricTarget

datatype MetricSourceType =
    ObjectMetricSourceType
  | PodsMetricSourceType
  | ResourceMetricSourceType
  | ContainerResourceMetricSourceType
  | ExternalMetricSourceType

record MetricSpec =
  Type :: MetricSourceType
  ContainerResource :: "ContainerResourceMetricSource option"
  External :: "ExternalMetricSource option"

datatype HPAScalingPolicyType = PodsScalingPolicy | PercentScalingPolicy

record HPAScalingPolicy =
  PolicyType :: HPAScalingPolicyType
  PolicyValue :: int32
  PeriodSeconds :: int32

record HorizontalPodAutoscalerBehavior =
  ScaleUp_Policies :: "HPAScalingPolicy list option"
  ScaleDown_Policies :: "HPAScalingPolicy list option"

record CrossVersionObjectReference =
  Kind :: string
  RefName :: string
  APIVersion :: string

record HorizontalPodAutoscaler =
  ObjectMeta_Name :: string
  ObjectMeta_Namespace :: string
  ObjectMeta_Annotations :: "string \<rightharpoonup> string"
  Spec_ScaleTargetRef :: CrossVersionObjectReference
  Spec_MinReplicas :: "int32 option"
  Spec_MaxReplicas :: int32
  Spec_Behavior :: "HorizontalPodAutoscalerBehavior option"
  Spec_Metrics :: "MetricSpec list"

record Deployment =
  Status_Replicas :: int32

section \<open>The tortoise API types read by the package\<close>

text \<open>
  The package \<^verbatim>\<open>api/v1alpha1\<close> that declares the tortoise types is not among the
  sources; the records below have the fields the code reads and writes, under the names
  the code uses. A Go map that the code ranges over is an association list in the order
  of the iteration, which Go leaves unspecified: a theorem about every list is a theorem
  about every order.
\<close>

text \<open>
  Modelled from the spec: the type \<^verbatim>\<open>ReplicasRecommendation\<close> is missing; a time-window
  recommendation is \<open>{weekday, hourFrom, hourTo, value}\<close>.
\<close>

record ReplicasRecommendation =
  From :: int
  To :: int
  WeekDay :: Weekday
  Value :: int32

text \<open>
  Modelled from the spec: the type \<^verbatim>\<open>TortoisePhase\<close> is missing; the phase is one of
  Working, Emergency and BackToNormal, and "any other phase" is treated as Working is.
\<close>

datatype TortoisePhase =
    TortoisePhaseWorking
  | TortoisePhaseEmergency
  | TortoisePhaseBackToNormal
  | TortoisePhaseOther string

text \<open>
  Modelled from the spec: the type \<^verbatim>\<open>AutoscalingType\<close> is missing; the mode of a
  (container, resource kind) pair is purely horizontal or mixed/vertical-primary
  (\<^verbatim>\<open>docs/concept.md\<close>: "vertical or horizontal"). The code compares a mode with
  \<^verbatim>\<open>AutoscalingTypeHorizontal\<close> only.
\<close>

datatype AutoscalingType = AutoscalingTypeHorizontal | AutoscalingTypeVertical

text \<open>
  Modelled from the spec: the types of the resource policy, of the per-container target
  utilizations and of the tortoise are missing; the recommendation set is a per-container
  mapping from resource kind to target utilization and two sequences of time-window
  recommendations, one for the minimum and one for the maximum replica count.
\<close>

record ContainerResourcePolicy =
  Policy_ContainerName :: string
  AutoscalingPolicy :: "(ResourceName \<times> AutoscalingType) list"

record HPATargetUtilizationRecommendationPerContainer =
  ContainerName :: string
  TargetUtilization :: "(ResourceName \<times> int32) list"

record Tortoise =
  Namespace :: string
  Spec_TargetRefs_HorizontalPodAutoscalerName :: "string option"
  Spec_TargetRefs_DeploymentName :: string
  Spec_ResourcePolicy :: "ContainerResourcePolicy list"
  Status_TortoisePhase :: TortoisePhase
  Status_Targets_HorizontalPodAutoscaler :: string
  Horizontal_TargetUtilizations :: "HPATargetUtilizationRecommendationPerContainer list"
  Horizontal_MaxReplicas :: "ReplicasRecommendation list"
  Horizontal_MinReplicas :: "ReplicasRecommendation list"

text \<open>
  The keys of the two naming-prefix annotations are constants of the package
  \<^verbatim>\<open>pkg/annotation\<close>, which is not among the sources: they are parameters. (The
  two keys differ: they are the keys of one Go map literal.)
\<close>

record annotation =
  HPAContainerBasedCPUExternalMetricNamePrefixAnnotation :: string
  HPAContainerBasedMemoryExternalMetricNamePrefixAnnotation :: string

section \<open>The API client\<close>

text \<open>
  \<^verbatim>\<open>client.Client\<close> is an interface of controller-runtime: any implementation, over any
  state \<open>'w\<close> of the cluster. \<open>Get\<close> reads; \<open>Create\<close> and \<open>Update\<close> return their
  error (or none) and the next state. Every call the package makes is recorded, in order,
  so that "never invoked" can be stated. The object handed to \<open>Create\<close> or \<open>Update\<close>
  is returned as the package left it: what an implementation writes back into it (a
  resource version, defaults of the server) is outside the model.
\<close>

type_synonym NamespacedName = "string \<times> string"

record 'w ApiClient =
  Get :: "'w \<Rightarrow> NamespacedName \<Rightarrow> error + HorizontalPodAutoscaler"
  Create :: "'w \<Rightarrow> HorizontalPodAutoscaler \<Rightarrow> error option \<times> 'w"
  Update :: "'w \<Rightarrow> HorizontalPodAutoscaler \<Rightarrow> error option \<times> 'w"

datatype call =
    GetCall NamespacedName
  | CreateCall HorizontalPodAutoscaler
  | UpdateCall HorizontalPodAutoscaler

record 'w Client =
  client_c :: "'w ApiClient"
  replicaReductionFactor :: float64
  upperTargetResourceUtilization :: int32

section \<open>Time-window lookup\<close>

text \<open>
  \<^verbatim>\<open>getReplicasRecommendation\<close>: a linear scan that returns the value of the first
  slot containing \<open>now\<close>, and the error "no recommendation slot" when the loop ends.
\<close>

fun getReplicasRecommendation :: "ReplicasRecommendation list \<Rightarrow> Time \<Rightarrow> error + int32" where
  "getReplicasRecommendation [] now = Inl (Msg ''no recommendation slot'')"
| "getReplicasRecommendation (r # recommendations) now =
     (if Hour now < To r \<and> Hour now \<ge> From r \<and> Weekday now = WeekDay r
      then Inr (Value r)
      else getReplicasRecommendation recommendations now)"

section \<open>External metric names\<close>

text \<open>
  \<^verbatim>\<open>hpa.GetAnnotations()[key]\<close>: indexing a Go map with a key it does not hold gives the
  zero value, the empty string, and no error.
\<close>

definition GetAnnotation :: "HorizontalPodAutoscaler \<Rightarrow> string \<Rightarrow> string" where
  "GetAnnotation hpa key = (case ObjectMeta_Annotations hpa key of None \<Rightarrow> [] | Some v \<Rightarrow> v)"

definition externalMetricNameFromAnnotation ::
    "annotation \<Rightarrow> HorizontalPodAutoscaler \<Rightarrow> string \<Rightarrow> ResourceName \<Rightarrow> error + string" where
  "externalMetricNameFromAnnotation ann hpa containerName k =
     (if k = ResourceCPU then
        Inr (GetAnnotation hpa (HPAContainerBasedCPUExternalMetricNamePrefixAnnotation ann)
             @ containerName)
      else if k = ResourceMemory then
        Inr (GetAnnotation hpa (HPAContainerBasedMemoryExternalMetricNamePrefixAnnotation ann)
             @ containerName)
      else Inl (NonSupportedResourceType k))"

section \<open>Rewriting metric targets\<close>

text \<open>
  \<^verbatim>\<open>updateHPATargetValue\<close> mutates the HPA it is given in place and returns an error or
  nil: the model returns the HPA as the call leaves it, with the error. The first loop
  overwrites the utilization target of the matching container-resource metrics; it runs
  before the metric name is computed, so its writes stay when the name computation fails.
  The second loop calls \<^verbatim>\<open>Set\<close> through the pointer \<^verbatim>\<open>Target.Value\<close> of the external
  metrics with the computed name, which panics when that pointer is nil. The two
  "shouldn't reach here" branches only log. The metrics of an HPA read from the API share
  no pointers, so a write through one entry changes that entry alone.
  \<open>setAverageUtilization\<close> is the body of the first loop, \<open>setExternalValue\<close> the body
  of the second and \<open>setExternalValues\<close> the second loop, which a panic cuts short.
\<close>

definition setAverageUtilization :: "string \<Rightarrow> ResourceName \<Rightarrow> int32 \<Rightarrow> MetricSpec \<Rightarrow> MetricSpec" where
  "setAverageUtilization containerName k targetValue m =
     (if Type m \<noteq> ContainerResourceMetricSourceType then m
      else case ContainerResource m of
        None \<Rightarrow> m
      | Some cr \<Rightarrow>
          if Container cr \<noteq> containerName \<or> ContainerResourceName cr \<noteq> k
             \<or> AverageUtilization (ContainerResourceTarget cr) = None
          then m
          else m\<lparr>ContainerResource := Some (cr\<lparr>ContainerResourceTarget :=
                  (ContainerResourceTarget cr)\<lparr>AverageUtilization := Some targetValue\<rparr>\<rparr>)\<rparr>)"

definition setExternalValue :: "string \<Rightarrow> int32 \<Rightarrow> MetricSpec \<Rightarrow> MetricSpec exec" where
  "setExternalValue externalMetricName targetValue m =
     (if Type m \<noteq> ExternalMetricSourceType then Returns m
      else case External m of
        None \<Rightarrow> Returns m
      | Some ex \<Rightarrow>
          if Metric_Name ex \<noteq> externalMetricName then Returns m
          else (case TargetValue (ExternalTarget ex) of
                  None \<Rightarrow> Panics
                | Some q \<Rightarrow>
                    Returns (m\<lparr>External := Some (ex\<lparr>ExternalTarget :=
                      (ExternalTarget ex)\<lparr>TargetValue :=
                         Some (Quantity_Set q (sint targetValue))\<rparr>\<rparr>)\<rparr>)))"

fun setExternalValues :: "string \<Rightarrow> int32 \<Rightarrow> MetricSpec list \<Rightarrow> MetricSpec list exec" where
  "setExternalValues externalMetricName targetValue [] = Returns []"
| "setExternalValues externalMetricName targetValue (m # ms) =
     (case setExternalValue externalMetricName targetValue m of
        Panics \<Rightarrow> Panics
      | Returns m' \<Rightarrow>
          (case setExternalValues externalMetricName targetValue ms of
             Panics \<Rightarrow> Panics
           | Returns ms' \<Rightarrow> Returns (m' # ms')))"

definition updateHPATargetValue ::
    "annotation \<Rightarrow> HorizontalPodAutoscaler \<Rightarrow> string \<Rightarrow> ResourceName \<Rightarrow> int32
      \<Rightarrow> (HorizontalPodAutoscaler \<times> error option) exec" where
  "updateHPATargetValue ann hpa containerName k targetValue =
     (let hpa1 = hpa\<lparr>Spec_Metrics :=
                   map (setAverageUtilization containerName k targetValue) (Spec_Metrics hpa)\<rparr>
      in case externalMetricNameFromAnnotation ann hpa1 containerName k of
           Inl err \<Rightarrow> Returns (hpa1, Some err)
         | Inr externalMetricName \<Rightarrow>
             (case setExternalValues externalMetricName targetValue (Spec_Metrics hpa1) of
                Panics \<Rightarrow> Panics
              | Returns ms \<Rightarrow> Returns (hpa1\<lparr>Spec_Metrics := ms\<rparr>, None)))"

section \<open>Applying the recommendations of a tortoise\<close>

text \<open>
  The two nested loops at the head of \<^verbatim>\<open>UpdateHPAFromTortoiseRecommendation\<close>: every
  recommended target utilization is written into the HPA; the first failing rewrite ends
  the call with a fresh error that does not wrap the cause. \<open>updateContainerTargets\<close>
  is the inner loop, over the map of one container, and \<open>updateAllTargets\<close> the outer
  loop, over the containers.
\<close>

fun updateContainerTargets ::
    "annotation \<Rightarrow> HorizontalPodAutoscaler \<Rightarrow> string \<Rightarrow> (ResourceName \<times> int32) list
      \<Rightarrow> (HorizontalPodAutoscaler \<times> error option) exec" where
  "updateContainerTargets ann hpa containerName [] = Returns (hpa, None)"
| "updateContainerTargets ann hpa containerName ((k, r) # rest) =
     (case updateHPATargetValue ann hpa containerName k r of
        Panics \<Rightarrow> Panics
      | Returns (hpa', Some err) \<Rightarrow>
          Returns (hpa', Some (Msg ''update HPA from the recommendation from tortoise''))
      | Returns (hpa', None) \<Rightarrow> updateContainerTargets ann hpa' containerName rest)"

fun updateAllTargets ::
    "annotation \<Rightarrow> HorizontalPodAutoscaler
      \<Rightarrow> HPATargetUtilizationRecommendationPerContainer list
      \<Rightarrow> (HorizontalPodAutoscaler \<times> error option) exec" where
  "updateAllTargets ann hpa [] = Returns (hpa, None)"
| "updateAllTargets ann hpa (t # ts) =
     (case updateContainerTargets ann hpa (ContainerName t) (TargetUtilization t) of
        Panics \<Rightarrow> Panics
      | Returns (hpa', Some err) \<Rightarrow> Returns (hpa', Some err)
      | Returns (hpa', None) \<Rightarrow> updateAllTargets ann hpa' ts)"

text \<open>
  \<^verbatim>\<open>int32(math.Trunc(float64(currentMin) * c.replicaReductionFactor))\<close>, the reduced
  minimum of the BackToNormal phase.
\<close>

definition reducedMinReplicas :: "(float64 \<Rightarrow> int32) \<Rightarrow> float64 \<Rightarrow> int32 \<Rightarrow> int32" where
  "reducedMinReplicas arch factor currentMin =
     int32_of_float64 arch (Trunc (float64_mul (float64_of_int32 currentMin) factor))"

text \<open>
  The \<^verbatim>\<open>switch\<close> on the phase: the new minimum and the tortoise, whose phase
  becomes Working when BackToNormal has finished. \<open>minReplicas\<close> is the pointer
  \<^verbatim>\<open>hpa.Spec.MinReplicas\<close>, dereferenced in the BackToNormal branch only.
\<close>

definition switchTortoisePhase ::
    "(float64 \<Rightarrow> int32) \<Rightarrow> float64 \<Rightarrow> Tortoise \<Rightarrow> Time \<Rightarrow> int32 option \<Rightarrow> int32
      \<Rightarrow> (error + int32 \<times> Tortoise) exec" where
  "switchTortoisePhase arch factor tortoise now minReplicas max' =
     (case Status_TortoisePhase tortoise of
        TortoisePhaseEmergency \<Rightarrow> Returns (Inr (max', tortoise))
      | TortoisePhaseBackToNormal \<Rightarrow>
          (case getReplicasRecommendation (Horizontal_MinReplicas tortoise) now of
             Inl err \<Rightarrow> Returns (Inl (Wrap ''get minReplicas recommendation'' err))
           | Inr idealMin \<Rightarrow>
               (case minReplicas of
                  None \<Rightarrow> Panics
                | Some currentMin \<Rightarrow>
                    (let reduced = reducedMinReplicas arch factor currentMin in
                     if sint idealMin > sint reduced
                     then Returns (Inr (idealMin,
                            tortoise\<lparr>Status_TortoisePhase := TortoisePhaseWorking\<rparr>))
                     else Returns (Inr (reduced, tortoise)))))
      | _ \<Rightarrow>
          (case getReplicasRecommendation (Horizontal_MinReplicas tortoise) now of
             Inl err \<Rightarrow> Returns (Inl (Wrap ''get minReplicas recommendation'' err))
           | Inr min' \<Rightarrow> Returns (Inr (min', tortoise))))"

text \<open>
  \<^verbatim>\<open>UpdateHPAFromTortoiseRecommendation\<close> returns the HPA (or nil), the tortoise and the
  error (or nil); the model adds the state of the cluster after the call and the client
  calls made. The name of the HPA is dereferenced before the \<open>Get\<close>.
\<close>

definition UpdateHPAFromTortoiseRecommendation ::
    "annotation \<Rightarrow> (float64 \<Rightarrow> int32) \<Rightarrow> 'w Client \<Rightarrow> 'w \<Rightarrow> Tortoise \<Rightarrow> Time
      \<Rightarrow> (HorizontalPodAutoscaler option \<times> Tortoise \<times> error option) exec \<times> 'w \<times> call list" where
  "UpdateHPAFromTortoiseRecommendation ann arch cl w tortoise now =
     (case Spec_TargetRefs_HorizontalPodAutoscalerName tortoise of
        None \<Rightarrow> (Panics, w, [])
      | Some name \<Rightarrow>
         (let key = (Namespace tortoise, name) in
          case Get (client_c cl) w key of
            Inl err \<Rightarrow>
              (Returns (None, tortoise, Some (Wrap ''failed to get hpa on tortoise'' err)),
               w, [GetCall key])
          | Inr hpa \<Rightarrow>
             (case updateAllTargets ann hpa (Horizontal_TargetUtilizations tortoise) of
                Panics \<Rightarrow> (Panics, w, [GetCall key])
              | Returns (hpa1, Some err) \<Rightarrow> (Returns (None, tortoise, Some err), w, [GetCall key])
              | Returns (hpa1, None) \<Rightarrow>
                 (case getReplicasRecommendation (Horizontal_MaxReplicas tortoise) now of
                    Inl err \<Rightarrow>
                      (Returns (None, tortoise,
                         Some (Wrap ''get maxReplicas recommendation'' err)), w, [GetCall key])
                  | Inr max' \<Rightarrow>
                     (let hpa2 = hpa1\<lparr>Spec_MaxReplicas := max'\<rparr> in
                      case switchTortoisePhase arch (replicaReductionFactor cl) tortoise now
                             (Spec_MinReplicas hpa2) max' of
                        Panics \<Rightarrow> (Panics, w, [GetCall key])
                      | Returns (Inl err) \<Rightarrow> (Returns (None, tortoise, Some err), w, [GetCall key])
                      | Returns (Inr (min', tortoise')) \<Rightarrow>
                         (let hpa3 = hpa2\<lparr>Spec_MinReplicas := Some min'\<rparr>;
                              (err, w') = Update (client_c cl) w hpa3
                          in (Returns (Some hpa3, tortoise', err), w',
                              [GetCall key, UpdateCall hpa3])))))))"

section \<open>Bootstrap\<close>

text \<open>
  \<^verbatim>\<open>CreateHPAOnTortoise\<close>. The two loops append one external metric for every entry of
  every container's autoscaling policy, with the target 50 when the entry is
  \<open>AutoscalingTypeHorizontal\<close> and 90 otherwise; a resource name other than cpu and
  memory ends the call with the naming error before anything is created.
  \<open>appendContainerMetrics\<close> is the inner loop, over the policy map of one container,
  \<open>appendPolicyMetrics\<close> the outer loop, and \<open>defaultHPA\<close> the HPA literal the
  function starts from, with the bracket of the current replicas and the two scaling
  policies.
\<close>

definition externalMetricSpec :: "string \<Rightarrow> Quantity \<Rightarrow> MetricSpec" where
  "externalMetricSpec externalMetricName v =
     \<lparr>Type = ExternalMetricSourceType,
      ContainerResource = None,
      External = Some \<lparr>Metric_Name = externalMetricName,
                       ExternalTarget = \<lparr>TargetType = ValueMetricType,
                                         TargetValue = Some v,
                                         AverageValue = None,
                                         AverageUtilization = None\<rparr>\<rparr>\<rparr>"



definition defaultHPA ::
    "annotation \<Rightarrow> (float64 \<Rightarrow> int32) \<Rightarrow> Tortoise \<Rightarrow> string \<Rightarrow> Deployment
      \<Rightarrow> HorizontalPodAutoscaler" where
  "defaultHPA ann arch tortoise name dm =
     \<lparr>ObjectMeta_Name = name,
      ObjectMeta_Namespace = Namespace tortoise,
      ObjectMeta_Annotations =
        [HPAContainerBasedMemoryExternalMetricNamePrefixAnnotation ann \<mapsto>
           ''datadogmetric@'' @ Namespace tortoise @ '':''
             @ Spec_TargetRefs_DeploymentName tortoise @ ''-memory-'',
         HPAContainerBasedCPUExternalMetricNamePrefixAnnotation ann \<mapsto>
           ''datadogmetric@'' @ Namespace tortoise @ '':''
             @ Spec_TargetRefs_DeploymentName tortoise @ ''-cpu-''],
      Spec_ScaleTargetRef =
        \<lparr>Kind = ''Deployment'', RefName = Spec_TargetRefs_DeploymentName tortoise,
         APIVersion = ''apps/v1''\<rparr>,
      Spec_MinReplicas =
        Some (int32_of_float64 arch
                (Ceil (float64_div_2 (float64_of_int32 (Status_Replicas dm))))),
      Spec_MaxReplicas = Status_Replicas dm * 2,
      Spec_Behavior =
        Some \<lparr>ScaleUp_Policies =
                Some [\<lparr>PolicyType = PercentScalingPolicy, PolicyValue = 100,
                       PeriodSeconds = 60\<rparr>],
              ScaleDown_Policies =
                Some [\<lparr>PolicyType = PercentScalingPolicy, PolicyValue = 2,
                       PeriodSeconds = 90\<rparr>]\<rparr>,
      Spec_Metrics = []\<rparr>"


section \<open>Notions of the specification\<close>

text \<open>The slot predicate in the words of the specification.\<close>

definition slot_matches :: "Time \<Rightarrow> ReplicasRecommendation \<Rightarrow> bool" where
  "slot_matches now slot =
     (Weekday now = WeekDay slot \<and> From slot \<le> Hour now \<and> Hour now < To slot)"

text \<open>
  Reconciliation passes in a row, for the convergence of the BackToNormal decay: each
  pass runs the phase switch on the minimum the pass before produced and on the tortoise
  it returned, at the same moment \<open>now\<close> (one time window, so one ideal minimum).
\<close>

fun planPasses ::
    "(float64 \<Rightarrow> int32) \<Rightarrow> float64 \<Rightarrow> Time \<Rightarrow> int32 \<Rightarrow> nat \<Rightarrow> int32 \<times> Tortoise
      \<Rightarrow> (error + int32 \<times> Tortoise) exec" where
  "planPasses arch factor now max' 0 s = Returns (Inr s)"
| "planPasses arch factor now max' (Suc n) (currentMin, tortoise) =
     (case switchTortoisePhase arch factor tortoise now (Some currentMin) max' of
        Returns (Inr s') \<Rightarrow> planPasses arch factor now max' n s'
      | r \<Rightarrow> r)"

text \<open>
  The rewrite applied twice in a row to the same HPA, the second call on what the first
  one left.
\<close>

definition updateHPATargetValueTwice ::
    "annotation \<Rightarrow> HorizontalPodAutoscaler \<Rightarrow> string \<Rightarrow> ResourceName \<Rightarrow> int32
      \<Rightarrow> (HorizontalPodAutoscaler \<times> error option) exec" where
  "updateHPATargetValueTwice ann hpa containerName k targetValue =
     (case updateHPATargetValue ann hpa containerName k targetValue of
        Panics \<Rightarrow> Panics
      | Returns (hpa', err) \<Rightarrow> updateHPATargetValue ann hpa' containerName k targetValue)"

text \<open>
  A MetricSpec for (container, resource kind): a container-resource metric of that
  container and resource, or an external metric that carries the external metric name of
  the pair.
\<close>

definition metricSpecFor ::
    "annotation \<Rightarrow> HorizontalPodAutoscaler \<Rightarrow> string \<Rightarrow> ResourceName \<Rightarrow> MetricSpec \<Rightarrow> bool" where
  "metricSpecFor ann hpa containerName k m =
     (case Type m of
        ContainerResourceMetricSourceType \<Rightarrow>
          (case ContainerResource m of
             None \<Rightarrow> False
           | Some cr \<Rightarrow> Container cr = containerName \<and> ContainerResourceName cr = k)
      | ExternalMetricSourceType \<Rightarrow>
          (case External m of
             None \<Rightarrow> False
           | Some ex \<Rightarrow>
               externalMetricNameFromAnnotation ann hpa containerName k = Inr (Metric_Name ex))
      | _ \<Rightarrow> False)"



section \<open>Sample data\<close>

text \<open>
  A cluster that keeps HPAs by namespaced name, as the fake client of controller-runtime
  does, and the constants 0.5 and 0.9 as \<^verbatim>\<open>float64\<close>: 0.5 is exact, and the
  \<^verbatim>\<open>float64\<close> nearest to 0.9 is \<open>8106479329266893 / 2 ^ 53\<close>.
\<close>

definition float64_0_5 :: float64 where
  "float64_0_5 = Finite 1 (- 1)"

definition float64_0_9 :: float64 where
  "float64_0_9 = Finite 8106479329266893 (- 53)"

text \<open>
  One third is not a \<^verbatim>\<open>float64\<close>: the nearest one is
  \<open>6004799503160661 / 2 ^ 54\<close>, just below it.
\<close>

definition float64_third :: float64 where
  "float64_third = Finite 6004799503160661 (- 54)"

definition memoryClient :: "(NamespacedName \<rightharpoonup> HorizontalPodAutoscaler) ApiClient" where
  "memoryClient =
     \<lparr>Get = (\<lambda>w key. case w key of None \<Rightarrow> Inl (ApiError NotFound) | Some hpa \<Rightarrow> Inr hpa),
      Create = (\<lambda>w hpa.
        if w (ObjectMeta_Namespace hpa, ObjectMeta_Name hpa) = None
        then (None, w((ObjectMeta_Namespace hpa, ObjectMeta_Name hpa) \<mapsto> hpa))
        else (Some (ApiError AlreadyExists), w)),
      Update = (\<lambda>w hpa.
        if w (ObjectMeta_Namespace hpa, ObjectMeta_Name hpa) = None
        then (Some (ApiError NotFound), w)
        else (None, w((ObjectMeta_Namespace hpa, ObjectMeta_Name hpa) \<mapsto> hpa)))\<rparr>"

definition sampleClient ::
    "float64 \<Rightarrow> (NamespacedName \<rightharpoonup> HorizontalPodAutoscaler) Client" where
  "sampleClient factor =
     \<lparr>client_c = memoryClient, replicaReductionFactor = factor,
      upperTargetResourceUtilization = 90\<rparr>"

definition sampleAnnotation :: annotation where
  "sampleAnnotation =
     \<lparr>HPAContainerBasedCPUExternalMetricNamePrefixAnnotation = ''cpu-metric-prefix'',
      HPAContainerBasedMemoryExternalMetricNamePrefixAnnotation = ''memory-metric-prefix''\<rparr>"

definition sampleArch :: "float64 \<Rightarrow> int32" where
  "sampleArch x = - 2147483648"

definition utilizationMetric :: "string \<Rightarrow> ResourceName \<Rightarrow> int32 \<Rightarrow> MetricSpec" where
  "utilizationMetric containerName k v =
     \<lparr>Type = ContainerResourceMetricSourceType,
      ContainerResource = Some \<lparr>ContainerResourceName = k,
        ContainerResourceTarget = \<lparr>TargetType = UtilizationMetricType, TargetValue = None,
          AverageValue = None, AverageUtilization = Some v\<rparr>,
        Container = containerName\<rparr>,
      External = None\<rparr>"

definition sampleHPA :: "int32 \<Rightarrow> HorizontalPodAutoscaler" where
  "sampleHPA currentMin =
     \<lparr>ObjectMeta_Name = ''hpa'',
      ObjectMeta_Namespace = ''default'',
      ObjectMeta_Annotations =
        [''memory-metric-prefix'' \<mapsto> ''datadogmetric@default:app-memory-'',
         ''cpu-metric-prefix'' \<mapsto> ''datadogmetric@default:app-cpu-''],
      Spec_ScaleTargetRef = \<lparr>Kind = ''Deployment'', RefName = ''app'', APIVersion = ''apps/v1''\<rparr>,
      Spec_MinReplicas = Some currentMin,
      Spec_MaxReplicas = 20,
      Spec_Behavior = None,
      Spec_Metrics =
        [utilizationMetric ''api'' ''cpu'' 50,
         externalMetricSpec ''datadogmetric@default:app-cpu-api'' MustParse_50,
         utilizationMetric ''worker'' ''cpu'' 50,
         externalMetricSpec ''datadogmetric@default:app-memory-api'' MustParse_90]\<rparr>"

definition sampleTortoise :: "TortoisePhase \<Rightarrow> ReplicasRecommendation list \<Rightarrow> Tortoise" where
  "sampleTortoise phase minReplicas =
     \<lparr>Namespace = ''default'',
      Spec_TargetRefs_HorizontalPodAutoscalerName = Some ''hpa'',
      Spec_TargetRefs_DeploymentName = ''app'',
      Spec_ResourcePolicy =
        [\<lparr>Policy_ContainerName = ''api'',
          AutoscalingPolicy = [(''cpu'', AutoscalingTypeHorizontal),
                               (''memory'', AutoscalingTypeVertical)]\<rparr>],
      Status_TortoisePhase = phase,
      Status_Targets_HorizontalPodAutoscaler = [],
      Horizontal_TargetUtilizations =
        [\<lparr>ContainerName = ''api'', TargetUtilization = [(''cpu'', 60)]\<rparr>],
      Horizontal_MaxReplicas = [\<lparr>From = 0, To = 24, WeekDay = Monday, Value = 12\<rparr>],
      Horizontal_MinReplicas = minReplicas\<rparr>"

definition sampleNow :: Time where
  "sampleNow = \<lparr>Hour = 14, Weekday = Monday\<rparr>"

definition sampleWorld :: "int32 \<Rightarrow> NamespacedName \<rightharpoonup> HorizontalPodAutoscaler" where
  "sampleWorld currentMin = [(''default'', ''hpa'') \<mapsto> sampleHPA currentMin]"

section \<open>Properties\<close>

subsection \<open>Rounding to nearest, ties to even\<close>

lemma rne_cases:
  "round_nearest_even M s = M div 2 ^ s \<or> round_nearest_even M s = M div 2 ^ s + 1"
  by (simp add: round_nearest_even_def Let_def)

lemma rne_low: "2 * (M mod 2 ^ s) < 2 ^ s \<Longrightarrow> round_nearest_even M s = M div 2 ^ s"
  by (simp add: round_nearest_even_def Let_def)

lemma rne_le: 
  assumes a: "M \<le> N * 2 ^ s" 
  shows "round_nearest_even M s \<le> N"
proof -
  define q where "q = M div 2 ^ s"
  define r where "r = M mod 2 ^ s"
  have p: "(0::int) < 2 ^ s" by simp
  have M: "M = q * 2 ^ s + r" unfolding q_def r_def by (rule div_mult_mod_eq[symmetric])
  have r0: "0 \<le> r" "r < 2 ^ s" by (simp_all add: r_def)
  have qN: "q \<le> N"
  proof (rule ccontr)
    assume "\<not> q \<le> N"
    then have "N + 1 \<le> q" by simp
    then have "(N + 1) * 2 ^ s \<le> q * 2 ^ s" using p by (simp add: mult_right_mono)
    with M r0 a show False by (simp add: algebra_simps)
  qed
  show ?thesis
  proof (cases "q = N")
    case True
    then have "r = 0" using M a r0 by simp
    then have "2 * (M mod 2 ^ s) < 2 ^ s" by (simp add: r_def)
    then show ?thesis using True by (simp add: rne_low q_def)
  next
    case False
    then have "q + 1 \<le> N" using qN by simp
    then show ?thesis using rne_cases[of M s] by (auto simp: q_def)
  qed
qed

lemma rne_ge: 
  assumes a: "N * 2 ^ s \<le> M" 
  shows "N \<le> round_nearest_even M s"
proof -
  have p: "(0::int) < 2 ^ s" by simp
  have "(N * 2 ^ s) div 2 ^ s \<le> M div 2 ^ s" using a p by (intro zdiv_mono1) auto
  then have "N \<le> M div 2 ^ s" by simp
  then show ?thesis using rne_cases[of M s] by auto
qed

lemma rne_lt: 
  assumes a: "2 * M < (2 * N - 1) * 2 ^ s" 
  shows "round_nearest_even M s < N"
proof -
  define q where "q = M div 2 ^ s"
  define r where "r = M mod 2 ^ s"
  have p: "(0::int) < 2 ^ s" by simp
  have M: "M = q * 2 ^ s + r" unfolding q_def r_def by (rule div_mult_mod_eq[symmetric])
  have r0: "0 \<le> r" "r < 2 ^ s" by (simp_all add: r_def)
  have a': "2 * q * 2 ^ s + 2 * r < 2 * N * 2 ^ s - 2 ^ s"
    using a unfolding M by (simp add: algebra_simps)
  have qN: "q < N"
  proof (rule ccontr)
    assume "\<not> q < N"
    then have "N \<le> q" by simp
    then have "N * 2 ^ s \<le> q * 2 ^ s" using p by (simp add: mult_right_mono)
    with a' r0 p show False by (simp add: algebra_simps)
  qed
  show ?thesis
  proof (cases "q = N - 1")
    case True
    have "2 * q * 2 ^ s = 2 * N * 2 ^ s - 2 * 2 ^ s" unfolding True by (simp add: algebra_simps)
    with a' have "2 * r < 2 ^ s" by simp
    then show ?thesis using True by (simp add: rne_low q_def r_def)
  next
    case False
    then have "q + 1 < N" using qN by simp
    then show ?thesis using rne_cases[of M s] by (auto simp: q_def)
  qed
qed

subsection \<open>The value and the integer part of a finite \<^verbatim>\<open>float64\<close>\<close>

lemma trunc_floor:
  "0 \<le> m \<Longrightarrow> trunc_toward_zero m e = \<lfloor>float64_value (Finite m e)\<rfloor>"
proof (cases "0 \<le> e")
  case True
  assume "0 \<le> m"
  have "(of_int m * 2 ^ nat e :: real) = of_int (m * 2 ^ nat e)" by simp
  then show ?thesis using True unfolding trunc_toward_zero_def
    by (simp del: of_int_mult of_int_power)
next
  case False
  assume m: "0 \<le> m"
  have "\<lfloor>(of_int m :: real) / of_int (2 ^ nat (- e))\<rfloor> = m div 2 ^ nat (- e)"
    by (rule floor_divide_of_int_eq)
  then show ?thesis using False m unfolding trunc_toward_zero_def
    by (cases "m = 0") (simp_all)
qed

lemma bitlen_le_53: "\<bar>x\<bar> < 2 ^ 53 \<Longrightarrow> bitlen \<bar>x\<bar> \<le> 53"
  by (simp add: bitlen_le_iff_power)

lemma value_le_1_nonneg_exp:
  assumes "0 \<le> e" "0 \<le> m" "float64_value (Finite m e) \<le> 1"
  shows "m = 0 \<or> (m = 1 \<and> e = 0)"
proof -
  have "(of_int (m * 2 ^ nat e) :: real) \<le> of_int 1" using assms by simp
  then have le: "m * 2 ^ nat e \<le> 1" by (simp only: of_int_le_iff)
  show ?thesis
  proof (cases "m = 0")
    case False
    then have m1: "1 \<le> m" using assms by simp
    have "(1::int) \<le> 2 ^ nat e" by simp
    then have "m * 1 \<le> m * 2 ^ nat e" using m1 by (intro mult_left_mono) auto
    with le have "m = 1" using m1 by linarith
    with le have "(2::int) ^ nat e \<le> 1" by simp
    then have "nat e = 0"
    proof (cases "nat e")
      case (Suc n)
      have "(1::int) \<le> 2 ^ n" by simp
      then have "(2::int) \<le> 2 ^ nat e" unfolding Suc by simp
      with \<open>(2::int) ^ nat e \<le> 1\<close> show ?thesis by simp
    qed simp
    with \<open>m = 1\<close> assms show ?thesis by simp
  qed simp
qed

lemma value_le_1_neg_exp:
  assumes "e < 0" "float64_value (Finite m e) \<le> 1"
  shows "m \<le> 2 ^ nat (- e)"
proof -
  have "(of_int m :: real) / 2 ^ nat (- e) \<le> 1" using assms by simp
  then have "(of_int m :: real) \<le> 2 ^ nat (- e)" by (simp add: field_simps)
  then have "(of_int m :: real) \<le> of_int (2 ^ nat (- e))" by simp
  then show ?thesis by (simp only: of_int_le_iff)
qed

lemma value_lt_1_neg_exp:
  assumes "e < 0" "float64_value (Finite m e) < 1"
  shows "m < 2 ^ nat (- e)"
proof -
  have "(of_int m :: real) / 2 ^ nat (- e) < 1" using assms by simp
  then have "(of_int m :: real) < 2 ^ nat (- e)" by (simp add: field_simps)
  then have "(of_int m :: real) < of_int (2 ^ nat (- e))" by simp
  then show ?thesis by (simp only: of_int_less_iff)
qed

lemma int_div_le: "0 < d \<Longrightarrow> x \<le> c * d \<Longrightarrow> x div d \<le> (c::int)"
proof -
  assume d: "0 < d" and x: "x \<le> c * d"
  have "x div d \<le> (c * d) div d" using x d by (intro zdiv_mono1) auto
  then show ?thesis using d by simp
qed

lemma int_div_lt: "0 < d \<Longrightarrow> x < c * d \<Longrightarrow> x div d < (c::int)"
proof (rule ccontr)
  assume d: "0 < d" and x: "x < c * d" and n: "\<not> x div d < c"
  then have "c * d \<le> (x div d) * d" by (simp add: mult_right_mono)
  moreover have "x = (x div d) * d + x mod d" by (rule div_mult_mod_eq[symmetric])
  moreover have "0 \<le> x mod d" using d by simp
  ultimately show False using x by linarith
qed

lemma round_exact:
  assumes "bitlen \<bar>M\<bar> \<le> 53" "- 1074 \<le> E" "bitlen \<bar>M\<bar> + E \<le> 1024"
  shows "float64_round M E = Finite M E"
proof -
  have s: "max (bitlen \<bar>M\<bar> - 53) (- 1074 - E) \<le> 0" using assms by simp
  have o: "\<not> 1024 < bitlen \<bar>M\<bar> + E" using assms by simp
  show ?thesis unfolding float64_round_def Let_def by (simp only: s o if_True if_False)
qed

lemma round_big:
  assumes "53 < bitlen \<bar>M\<bar>" "- 1074 \<le> E"
    "bitlen \<bar>round_nearest_even M (nat (bitlen \<bar>M\<bar> - 53))\<bar> + (E + (bitlen \<bar>M\<bar> - 53)) \<le> 1024"
  shows "float64_round M E =
     Finite (round_nearest_even M (nat (bitlen \<bar>M\<bar> - 53))) (E + (bitlen \<bar>M\<bar> - 53))"
proof -
  have s1: "max (bitlen \<bar>M\<bar> - 53) (- 1074 - E) = bitlen \<bar>M\<bar> - 53" using assms by simp
  have s2: "\<not> bitlen \<bar>M\<bar> - 53 \<le> 0" using assms by simp
  have o: "\<not> 1024 < bitlen \<bar>round_nearest_even M (nat (bitlen \<bar>M\<bar> - 53))\<bar> + (E + (bitlen \<bar>M\<bar> - 53))"
    using assms by simp
  show ?thesis unfolding float64_round_def Let_def by (simp only: s1 s2 o if_False)
qed

lemma trunc_nonneg_neg_exp:
  "0 \<le> M \<Longrightarrow> E < 0 \<Longrightarrow> trunc_toward_zero M E = M div 2 ^ nat (- E)"
  by (cases "M = 0") (simp_all add: trunc_toward_zero_def)

lemma trunc_nonpos_neg_exp:
  "M \<le> 0 \<Longrightarrow> E < 0 \<Longrightarrow> trunc_toward_zero M E = - ((- M) div 2 ^ nat (- E))"
  by (cases "M = 0") (simp_all add: trunc_toward_zero_def)

subsection \<open>The product of a replica count and a factor in the unit interval\<close>

lemma product_nonneg:
  assumes c: "0 \<le> c" "c < 2 ^ 31" and m: "0 \<le> m" "m < 2 ^ 53"
      and e: "- 1074 \<le> e" "e \<le> 971"
      and v: "float64_value (Finite m e) \<le> 1"
  shows "\<exists>M' E'. float64_round (c * m) e = Finite M' E' \<and> 0 \<le> M' \<and>
           trunc_toward_zero M' E' \<le> c \<and>
           (float64_value (Finite m e) < 1 \<longrightarrow> 1 \<le> c \<longrightarrow> trunc_toward_zero M' E' < c)"
proof (cases "0 \<le> e")
  case True
  from value_le_1_nonneg_exp[OF True m(1) v] consider "m = 0" | "m = 1" "e = 0" by blast
  then show ?thesis
  proof cases
    case 1
    have "float64_round (c * m) e = Finite 0 e"
      using e by (simp add: 1 round_exact)
    then show ?thesis using c by (simp add: trunc_toward_zero_def 1)
  next
    case 2
    have "\<bar>c\<bar> < 2 ^ 53" using c by simp
    then have b: "bitlen \<bar>c\<bar> \<le> 53" by (rule bitlen_le_53)
    have "float64_round (c * m) e = Finite c 0"
      using b by (simp add: 2 round_exact)
    then show ?thesis using c by (simp add: trunc_toward_zero_def 2)
  qed
next
  case False
  then have eneg: "e < 0" by simp
  define k where "k = nat (- e)"
  define M where "M = c * m"
  have mk: "m \<le> 2 ^ k" unfolding k_def by (rule value_le_1_neg_exp[OF eneg v])
  have M0: "0 \<le> M" using c m by (simp add: M_def)
  have Mk: "M \<le> c * 2 ^ k" unfolding M_def using mk c by (intro mult_left_mono) auto
  have Mk_strict: "M < c * 2 ^ k" if "float64_value (Finite m e) < 1" "1 \<le> c"
  proof -
    have "m < 2 ^ k" unfolding k_def by (rule value_lt_1_neg_exp[OF eneg that(1)])
    then show ?thesis unfolding M_def using that(2) by (intro mult_strict_left_mono) auto
  qed
  show ?thesis
  proof (cases "bitlen \<bar>M\<bar> \<le> 53")
    case True
    have r: "float64_round (c * m) e = Finite M e"
      unfolding M_def[symmetric] using True e eneg by (intro round_exact) auto
    have t: "trunc_toward_zero M e = M div 2 ^ k"
      unfolding k_def by (rule trunc_nonneg_neg_exp[OF M0 eneg])
    have "M div 2 ^ k \<le> c" using Mk by (intro int_div_le) auto
    moreover have "M div 2 ^ k < c" if "float64_value (Finite m e) < 1" "1 \<le> c"
      using Mk_strict[OF that] by (intro int_div_lt) auto
    ultimately show ?thesis using r t M0 by auto
  next
    case False
    define s where "s = nat (bitlen \<bar>M\<bar> - 53)"
    have big: "53 < bitlen \<bar>M\<bar>" using False by simp
    have s_int: "int s = bitlen \<bar>M\<bar> - 53" using big by (simp add: s_def)
    have Mpos: "0 < M" using big M0 by (cases "M = 0") auto
    have absM: "\<bar>M\<bar> = M" using M0 by simp
    have lb: "2 ^ (52 + s) \<le> M"
    proof -
      have "nat (bitlen M - 1) = 52 + s" using s_int absM by (simp add: nat_eq_iff)
      then show ?thesis using bitlen_bounds[OF Mpos] by simp
    qed
    have "(2::int) ^ (52 + s) < 2 ^ (31 + k)"
    proof -
      note lb
      also note Mk
      also have "c * 2 ^ k < 2 ^ 31 * (2::int) ^ k" using c by (intro mult_strict_right_mono) auto
      also have "2 ^ 31 * (2::int) ^ k = 2 ^ (31 + k)" by (simp only: power_add)
      finally show ?thesis .
    qed
    then have "52 + s < 31 + k" by (simp only: power_strict_increasing_iff) 
    then have sk: "s + 21 < k" by simp
    define j where "j = k - s"
    have kj: "k = j + s" using sk by (simp add: j_def)
    have jpos: "0 < j" using sk by (simp add: j_def)
    define R where "R = round_nearest_even M s"
    have R0: "0 \<le> R" unfolding R_def using M0 by (intro rne_ge) auto
    have Rc: "R \<le> c * 2 ^ j" unfolding R_def using Mk by (intro rne_le) (simp add: kj power_add)
    have "- e = int k" using eneg by (simp add: k_def)
    then have E': "e + (bitlen \<bar>M\<bar> - 53) = - int j" using s_int kj by linarith
    have "R < 2 ^ (31 + j)"
    proof -
      note Rc
      also have "c * 2 ^ j < 2 ^ 31 * (2::int) ^ j" using c by (intro mult_strict_right_mono) auto
      also have "2 ^ 31 * (2::int) ^ j = 2 ^ (31 + j)" by (simp only: power_add)
      finally show ?thesis .
    qed
    moreover have "nat (31 + int j) = 31 + j" by simp
    ultimately have bR: "bitlen \<bar>R\<bar> \<le> 31 + int j" using R0
      by (simp only: bitlen_le_iff_power abs_of_nonneg) simp
    have r: "float64_round (c * m) e = Finite R (- int j)"
    proof -
      have o: "bitlen \<bar>round_nearest_even M (nat (bitlen \<bar>M\<bar> - 53))\<bar>
          + (e + (bitlen \<bar>M\<bar> - 53)) \<le> 1024"
        using bR unfolding R_def s_def E' by simp
      have "float64_round M e =
        Finite (round_nearest_even M (nat (bitlen \<bar>M\<bar> - 53))) (e + (bitlen \<bar>M\<bar> - 53))"
        by (rule round_big[OF big e(1) o])
      then show ?thesis unfolding M_def[symmetric] E' R_def s_def by simp
    qed
    have t: "trunc_toward_zero R (- int j) = R div 2 ^ j"
      using trunc_nonneg_neg_exp[OF R0, of "- int j"] jpos by simp
    have "R div 2 ^ j \<le> c" using Rc by (intro int_div_le) auto
    moreover have "R div 2 ^ j < c" if lt: "float64_value (Finite m e) < 1" and c1: "1 \<le> c"
    proof -
      have "m < 2 ^ k" unfolding k_def by (rule value_lt_1_neg_exp[OF eneg lt])
      then have "m \<le> 2 ^ k - 1" by simp
      then have "c * m \<le> c * (2 ^ k - 1)" using c by (intro mult_left_mono) auto
      then have M2: "2 * M \<le> 2 * c * 2 ^ k - 2 * c" by (simp add: M_def algebra_simps)
      have "M < c * 2 ^ 53" unfolding M_def using m c1 by (intro mult_strict_left_mono) auto
      with lb have "(2::int) ^ s * 2 ^ 52 < c * 2 * 2 ^ 52" by (simp add: power_add)
      then have "(2::int) ^ s < 2 * c" by simp
      with M2 have "2 * M < 2 * c * 2 ^ k - 2 ^ s" by simp
      also have "\<dots> = (2 * (c * 2 ^ j) - 1) * 2 ^ s" by (simp add: kj power_add algebra_simps)
      finally have "R < c * 2 ^ j" unfolding R_def by (rule rne_lt)
      then show ?thesis by (intro int_div_lt) auto
    qed
    ultimately show ?thesis using r t R0 by auto
  qed
qed

lemma product_nonpos:
  assumes c: "- (2 ^ 31) \<le> c" "c \<le> 0" and m: "0 \<le> m" "m < 2 ^ 53"
      and e: "- 1074 \<le> e" "e \<le> 971"
      and v: "float64_value (Finite m e) \<le> 1"
  shows "\<exists>M' E'. float64_round (c * m) e = Finite M' E' \<and>
           c \<le> trunc_toward_zero M' E' \<and> trunc_toward_zero M' E' \<le> 0"
proof (cases "0 \<le> e")
  case True
  from value_le_1_nonneg_exp[OF True m(1) v] consider "m = 0" | "m = 1" "e = 0" by blast
  then show ?thesis
  proof cases
    case 1
    have "float64_round (c * m) e = Finite 0 e"
      using e by (simp add: 1 round_exact)
    then show ?thesis using c by (simp add: trunc_toward_zero_def 1)
  next
    case 2
    have "\<bar>c\<bar> < 2 ^ 53" using c by simp
    then have b: "bitlen \<bar>c\<bar> \<le> 53" by (rule bitlen_le_53)
    have "float64_round (c * m) e = Finite c 0"
      using b by (simp add: 2 round_exact)
    then show ?thesis using c by (simp add: trunc_toward_zero_def 2)
  qed
next
  case False
  then have eneg: "e < 0" by simp
  define k where "k = nat (- e)"
  define M where "M = c * m"
  have mk: "m \<le> 2 ^ k" unfolding k_def by (rule value_le_1_neg_exp[OF eneg v])
  have M0: "M \<le> 0" using c m by (simp add: M_def mult_nonpos_nonneg)
  have Mk: "c * 2 ^ k \<le> M" unfolding M_def using mk c by (intro mult_left_mono_neg) auto
  show ?thesis
  proof (cases "bitlen \<bar>M\<bar> \<le> 53")
    case True
    have r: "float64_round (c * m) e = Finite M e"
      unfolding M_def[symmetric] using True e eneg by (intro round_exact) auto
    have t: "trunc_toward_zero M e = - ((- M) div 2 ^ k)"
      unfolding k_def by (rule trunc_nonpos_neg_exp[OF M0 eneg])
    have "- M \<le> (- c) * 2 ^ k" using Mk by simp
    then have "(- M) div 2 ^ k \<le> - c" by (intro int_div_le) auto
    moreover have "0 \<le> (- M) div 2 ^ k" using M0 by (simp add: pos_imp_zdiv_nonneg_iff)
    ultimately show ?thesis using r t by auto
  next
    case False
    define s where "s = nat (bitlen \<bar>M\<bar> - 53)"
    have big: "53 < bitlen \<bar>M\<bar>" using False by simp
    have s_int: "int s = bitlen \<bar>M\<bar> - 53" using big by (simp add: s_def)
    have Mneg: "0 < - M" using big M0 by (cases "M = 0") auto
    have absM: "\<bar>M\<bar> = - M" using M0 by simp
    have lb: "2 ^ (52 + s) \<le> - M"
    proof -
      have "nat (bitlen (- M) - 1) = 52 + s" using s_int absM by (simp add: nat_eq_iff)
      then show ?thesis using bitlen_bounds[OF Mneg] by simp
    qed
    have "(2::int) ^ (52 + s) \<le> 2 ^ (31 + k)"
    proof -
      note lb
      also have "- M \<le> (- c) * 2 ^ k" using Mk by simp
      also have "(- c) * 2 ^ k \<le> 2 ^ 31 * (2::int) ^ k" using c by (intro mult_right_mono) auto
      also have "2 ^ 31 * (2::int) ^ k = 2 ^ (31 + k)" by (simp only: power_add)
      finally show ?thesis .
    qed
    then have "52 + s \<le> 31 + k" by (simp only: power_increasing_iff) 
    then have sk: "s + 21 \<le> k" by simp
    define j where "j = k - s"
    have kj: "k = j + s" using sk by (simp add: j_def)
    have jpos: "0 < j" using sk by (simp add: j_def)
    define R where "R = round_nearest_even M s"
    have R0: "R \<le> 0" unfolding R_def using M0 by (intro rne_le) auto
    have Rc: "c * 2 ^ j \<le> R" unfolding R_def using Mk by (intro rne_ge) (simp add: kj power_add)
    have "- e = int k" using eneg by (simp add: k_def)
    then have E': "e + (bitlen \<bar>M\<bar> - 53) = - int j" using s_int kj by linarith
    have "- R < 2 ^ (32 + j)"
    proof -
      have "- R \<le> (- c) * 2 ^ j" using Rc by simp
      also have "(- c) * 2 ^ j \<le> 2 ^ 31 * (2::int) ^ j" using c by (intro mult_right_mono) auto
      also have "2 ^ 31 * (2::int) ^ j < 2 ^ 32 * 2 ^ j" by (intro mult_strict_right_mono) auto
      also have "2 ^ 32 * (2::int) ^ j = 2 ^ (32 + j)" by (simp only: power_add)
      finally show ?thesis .
    qed
    moreover have "nat (32 + int j) = 32 + j" by simp
    ultimately have bR: "bitlen \<bar>R\<bar> \<le> 32 + int j" using R0
      by (simp only: bitlen_le_iff_power abs_of_nonpos) simp
    have r: "float64_round (c * m) e = Finite R (- int j)"
    proof -
      have o: "bitlen \<bar>round_nearest_even M (nat (bitlen \<bar>M\<bar> - 53))\<bar>
          + (e + (bitlen \<bar>M\<bar> - 53)) \<le> 1024"
        using bR unfolding R_def s_def E' by simp
      have "float64_round M e =
        Finite (round_nearest_even M (nat (bitlen \<bar>M\<bar> - 53))) (e + (bitlen \<bar>M\<bar> - 53))"
        by (rule round_big[OF big e(1) o])
      then show ?thesis unfolding M_def[symmetric] E' R_def s_def by simp
    qed
    have t: "trunc_toward_zero R (- int j) = - ((- R) div 2 ^ j)"
      using trunc_nonpos_neg_exp[OF R0, of "- int j"] jpos by simp
    have "- R \<le> (- c) * 2 ^ j" using Rc by simp
    then have "(- R) div 2 ^ j \<le> - c" by (intro int_div_le) auto
    moreover have "0 \<le> (- R) div 2 ^ j" using R0 by (simp add: pos_imp_zdiv_nonneg_iff)
    ultimately show ?thesis using r t by auto
  qed
qed

lemma sint_word_of_int_32:
  "- (2 ^ 31) \<le> x \<Longrightarrow> x < 2 ^ 31 \<Longrightarrow> sint (word_of_int x :: int32) = x"
  by (simp add: sint_sbintrunc' signed_take_bit_int_eq_self)

lemma sint32_bounds: "- (2 ^ 31) \<le> sint (c :: int32)" "sint (c :: int32) < 2 ^ 31"
  using sint_ge[of c] sint_lt[of c] by simp_all

lemma int32_of_float64_Trunc:
  assumes "- (2 ^ 31) \<le> trunc_toward_zero M E" "trunc_toward_zero M E < 2 ^ 31"
  shows "sint (int32_of_float64 arch (Trunc (Finite M E))) = trunc_toward_zero M E"
  using assms by (simp add: Let_def sint_word_of_int_32 trunc_toward_zero_def[of _ 0])

lemma value_nonneg_mantissa:
  "0 \<le> float64_value (Finite m e) \<Longrightarrow> 0 \<le> m"
proof (rule ccontr)
  assume v: "0 \<le> float64_value (Finite m e)" and "\<not> 0 \<le> m"
  then have "(of_int m :: real) < 0" by simp
  moreover have "(0::real) < 2 ^ nat e" "(0::real) < 2 ^ nat (- e)" by simp_all
  ultimately have "float64_value (Finite m e) < 0"
    by (simp add: mult_neg_pos divide_neg_pos)
  with v show False by simp
qed

lemma finite_cases: "is_finite f \<Longrightarrow> \<exists>m e. f = Finite m e"
  by (cases f) auto

lemma reduced_nonneg:
  assumes f: "is_finite factor" "valid_float64 factor"
      "0 \<le> float64_value factor" "float64_value factor \<le> 1"
    and c: "0 \<le> sint currentMin"
  shows "0 \<le> sint (reducedMinReplicas arch factor currentMin)"
    and "sint (reducedMinReplicas arch factor currentMin) \<le> sint currentMin"
    and "float64_value factor < 1 \<Longrightarrow> 1 \<le> sint currentMin \<Longrightarrow>
         sint (reducedMinReplicas arch factor currentMin) < sint currentMin"
    and "sint (reducedMinReplicas arch factor currentMin) =
         \<lfloor>float64_value (float64_mul (float64_of_int32 currentMin) factor)\<rfloor>"
proof -
  from finite_cases[OF f(1)] obtain m e where fe: "factor = Finite m e" by blast
  have m0: "0 \<le> m" using f(3) unfolding fe by (rule value_nonneg_mantissa)
  have v: "\<bar>m\<bar> < 2 ^ 53" "- 1074 \<le> e" "e \<le> 971" using f(2) unfolding fe by simp_all
  have m53: "m < 2 ^ 53" using v(1) by simp
  from product_nonneg[OF c sint32_bounds(2) m0 m53 v(2,3) f(4)[unfolded fe]]
  obtain M' E' where r: "float64_round (sint currentMin * m) e = Finite M' E'"
    and M0: "0 \<le> M'" and le: "trunc_toward_zero M' E' \<le> sint currentMin"
    and lt: "float64_value (Finite m e) < 1 \<longrightarrow> 1 \<le> sint currentMin \<longrightarrow>
             trunc_toward_zero M' E' < sint currentMin"
    by blast
  have p: "float64_mul (float64_of_int32 currentMin) factor = Finite M' E'"
    by (simp add: fe float64_of_int32_def r)
  have fl: "trunc_toward_zero M' E' = \<lfloor>float64_value (Finite M' E')\<rfloor>"
    by (rule trunc_floor[OF M0])
  have t0: "0 \<le> trunc_toward_zero M' E'"
    unfolding fl using M0 by (simp add: zero_le_mult_iff zero_le_divide_iff)
  have up: "trunc_toward_zero M' E' < 2 ^ 31" using le sint32_bounds(2)[of currentMin] by simp
  have s: "sint (reducedMinReplicas arch factor currentMin) = trunc_toward_zero M' E'"
    unfolding reducedMinReplicas_def p using t0 up by (intro int32_of_float64_Trunc) auto
  show "0 \<le> sint (reducedMinReplicas arch factor currentMin)" using s t0 by simp
  show "sint (reducedMinReplicas arch factor currentMin) \<le> sint currentMin" using s le by simp
  show "float64_value factor < 1 \<Longrightarrow> 1 \<le> sint currentMin \<Longrightarrow>
         sint (reducedMinReplicas arch factor currentMin) < sint currentMin"
    using s lt by (simp add: fe)
  show "sint (reducedMinReplicas arch factor currentMin) =
         \<lfloor>float64_value (float64_mul (float64_of_int32 currentMin) factor)\<rfloor>"
    using s fl p by simp
qed

lemma reduced_nonpos:
  assumes f: "is_finite factor" "valid_float64 factor"
      "0 \<le> float64_value factor" "float64_value factor \<le> 1"
    and c: "sint currentMin \<le> 0"
  shows "sint (reducedMinReplicas arch factor currentMin) \<le> 0"
    and "sint currentMin \<le> sint (reducedMinReplicas arch factor currentMin)"
proof -
  from finite_cases[OF f(1)] obtain m e where fe: "factor = Finite m e" by blast
  have m0: "0 \<le> m" using f(3) unfolding fe by (rule value_nonneg_mantissa)
  have v: "\<bar>m\<bar> < 2 ^ 53" "- 1074 \<le> e" "e \<le> 971" using f(2) unfolding fe by simp_all
  have m53: "m < 2 ^ 53" using v(1) by simp
  from product_nonpos[OF sint32_bounds(1) c m0 m53 v(2,3) f(4)[unfolded fe]]
  obtain M' E' where r: "float64_round (sint currentMin * m) e = Finite M' E'"
    and ge: "sint currentMin \<le> trunc_toward_zero M' E'"
    and le: "trunc_toward_zero M' E' \<le> 0"
    by blast
  have p: "float64_mul (float64_of_int32 currentMin) factor = Finite M' E'"
    by (simp add: fe float64_of_int32_def r)
  have lo: "- (2 ^ 31) \<le> trunc_toward_zero M' E'" using ge sint32_bounds(1)[of currentMin] by simp
  have s: "sint (reducedMinReplicas arch factor currentMin) = trunc_toward_zero M' E'"
    unfolding reducedMinReplicas_def p using lo le by (intro int32_of_float64_Trunc) auto
  show "sint (reducedMinReplicas arch factor currentMin) \<le> 0" using s le by simp
  show "sint currentMin \<le> sint (reducedMinReplicas arch factor currentMin)" using s ge by simp
qed

lemma int32_of_Trunc_floor:
  assumes "is_finite p" "0 \<le> float64_value p" "float64_value p < 2 ^ 31"
  shows "sint (int32_of_float64 arch (Trunc p)) = \<lfloor>float64_value p\<rfloor>"
proof -
  from finite_cases[OF assms(1)] obtain M E where p: "p = Finite M E" by blast
  have M0: "0 \<le> M" using assms(2) unfolding p by (rule value_nonneg_mantissa)
  have fl: "trunc_toward_zero M E = \<lfloor>float64_value (Finite M E)\<rfloor>"
    by (rule trunc_floor[OF M0])
  have lo: "0 \<le> \<lfloor>float64_value (Finite M E)\<rfloor>" using assms(2) unfolding p by simp
  have "\<lfloor>float64_value (Finite M E)\<rfloor> < 2 ^ 31"
    using assms(3) unfolding p by (simp only: floor_less_iff) simp
  with lo fl have "- (2 ^ 31) \<le> trunc_toward_zero M E" "trunc_toward_zero M E < 2 ^ 31"
    by simp_all
  from int32_of_float64_Trunc[OF this] fl show ?thesis unfolding p by simp
qed

lemma unit_interval_product:
  assumes f: "is_finite factor" "valid_float64 factor"
      "0 \<le> float64_value factor" "float64_value factor \<le> 1"
    and c: "0 \<le> sint currentMin"
  shows "is_finite (float64_mul (float64_of_int32 currentMin) factor)"
    and "0 \<le> float64_value (float64_mul (float64_of_int32 currentMin) factor)"
    and "float64_value (float64_mul (float64_of_int32 currentMin) factor) < 2 ^ 31"
proof -
  from finite_cases[OF f(1)] obtain m e where fe: "factor = Finite m e" by blast
  have m0: "0 \<le> m" using f(3) unfolding fe by (rule value_nonneg_mantissa)
  have v: "\<bar>m\<bar> < 2 ^ 53" "- 1074 \<le> e" "e \<le> 971" using f(2) unfolding fe by simp_all
  have m53: "m < 2 ^ 53" using v(1) by simp
  from product_nonneg[OF c sint32_bounds(2) m0 m53 v(2,3) f(4)[unfolded fe]]
  obtain M' E' where r: "float64_round (sint currentMin * m) e = Finite M' E'"
    and M0: "0 \<le> M'" and le: "trunc_toward_zero M' E' \<le> sint currentMin"
    by blast
  have p: "float64_mul (float64_of_int32 currentMin) factor = Finite M' E'"
    by (simp add: fe float64_of_int32_def r)
  show "is_finite (float64_mul (float64_of_int32 currentMin) factor)" by (simp add: p)
  show "0 \<le> float64_value (float64_mul (float64_of_int32 currentMin) factor)"
    unfolding p using M0 by simp
  have "\<lfloor>float64_value (Finite M' E')\<rfloor> = trunc_toward_zero M' E'"
    by (rule trunc_floor[OF M0, symmetric])
  then have "\<lfloor>float64_value (Finite M' E')\<rfloor> < 2 ^ 31"
    using le sint32_bounds(2)[of currentMin] by linarith
  then show "float64_value (float64_mul (float64_of_int32 currentMin) factor) < 2 ^ 31"
    unfolding p by (simp only: floor_less_iff) simp
qed

subsection \<open>Time-window lookup\<close>

lemma getReplicasRecommendation_find:
  "getReplicasRecommendation slots now =
     (case find (slot_matches now) slots of
        None \<Rightarrow> Inl (Msg ''no recommendation slot'')
      | Some slot \<Rightarrow> Inr (Value slot))"
  by (induction slots) (auto simp: slot_matches_def)

subsection \<open>The phase switch\<close>

lemma switch_emergency:
  "Status_TortoisePhase tortoise = TortoisePhaseEmergency \<Longrightarrow>
   switchTortoisePhase arch factor tortoise now minReplicas max' = Returns (Inr (max', tortoise))"
  by (simp add: switchTortoisePhase_def)

lemma switch_min_lookup_fails:
  "Status_TortoisePhase tortoise \<noteq> TortoisePhaseEmergency \<Longrightarrow>
   getReplicasRecommendation (Horizontal_MinReplicas tortoise) now = Inl e \<Longrightarrow>
   switchTortoisePhase arch factor tortoise now minReplicas max' =
     Returns (Inl (Wrap ''get minReplicas recommendation'' e))"
  by (simp add: switchTortoisePhase_def split: TortoisePhase.splits)

lemma switch_backToNormal:
  assumes "Status_TortoisePhase tortoise = TortoisePhaseBackToNormal"
    and "getReplicasRecommendation (Horizontal_MinReplicas tortoise) now = Inr idealMin"
  shows "switchTortoisePhase arch factor tortoise now (Some currentMin) max' =
     Returns (Inr (if sint idealMin > sint (reducedMinReplicas arch factor currentMin)
                   then (idealMin, tortoise\<lparr>Status_TortoisePhase := TortoisePhaseWorking\<rparr>)
                   else (reducedMinReplicas arch factor currentMin, tortoise)))"
  using assms by (simp add: switchTortoisePhase_def Let_def)

lemma switch_default:
  assumes "Status_TortoisePhase tortoise \<noteq> TortoisePhaseEmergency"
    and "Status_TortoisePhase tortoise \<noteq> TortoisePhaseBackToNormal"
    and "getReplicasRecommendation (Horizontal_MinReplicas tortoise) now = Inr idealMin"
  shows "switchTortoisePhase arch factor tortoise now minReplicas max' =
     Returns (Inr (idealMin, tortoise))"
  using assms by (simp add: switchTortoisePhase_def split: TortoisePhase.splits)

subsection \<open>Reduced minima of concrete inputs\<close>

lemma reduced_10_half: "reducedMinReplicas arch float64_0_5 10 = 5"
  by (simp add: reducedMinReplicas_def float64_0_5_def float64_of_int32_def
      float64_round_def compute_bitlen trunc_toward_zero_def Let_def)

lemma reduced_10_0_9: "reducedMinReplicas arch float64_0_9 10 = 9"
  by (simp add: reducedMinReplicas_def float64_0_9_def float64_of_int32_def
      float64_round_def compute_bitlen trunc_toward_zero_def round_nearest_even_def Let_def)

lemma reduced_5_half: "reducedMinReplicas arch float64_0_5 5 = 2"
  by (simp add: reducedMinReplicas_def float64_0_5_def float64_of_int32_def
      float64_round_def compute_bitlen trunc_toward_zero_def Let_def)

text \<open>
  Rounding is observable: the \<^verbatim>\<open>float64\<close> nearest to one third is below one third,
  yet three times it rounds to 1, so a minimum of 3 is reduced to 1, where the exact
  product would give 0.
\<close>

lemma reduced_3_third: "reducedMinReplicas arch float64_third 3 = 1"
  by (simp add: reducedMinReplicas_def float64_third_def float64_of_int32_def
      float64_round_def compute_bitlen trunc_toward_zero_def round_nearest_even_def Let_def)

lemma third_below: "float64_value float64_third < 1 / 3"
  by (simp add: float64_third_def)

lemma float64_third_nearest: "\<bar>float64_value float64_third - 1 / 3\<bar> \<le> 1 / 2 ^ 55"
  by (simp add: float64_third_def)

lemma float64_third_unit:
  "is_finite float64_third" "valid_float64 float64_third"
  "0 < float64_value float64_third" "float64_value float64_third < 1"
  by (simp_all add: float64_third_def)

lemma third_product_rounds_to_one:
  "float64_mul (float64_of_int32 3) float64_third = Finite 9007199254740992 (- 53)"
  "float64_value (Finite 9007199254740992 (- 53)) = 1"
  by (simp_all add: float64_third_def float64_of_int32_def float64_round_def compute_bitlen
      round_nearest_even_def Let_def)

lemma third_exact_floor:
  "\<lfloor>real_of_int (sint (3 :: int32)) * float64_value float64_third\<rfloor> = 0"
proof (rule floor_unique)
  show "of_int 0 \<le> real_of_int (sint (3 :: int32)) * float64_value float64_third"
    by (simp add: float64_third_def)
  show "real_of_int (sint (3 :: int32)) * float64_value float64_third < of_int 0 + 1"
    by (simp add: float64_third_def)
qed

lemma float64_0_9_nearest: "\<bar>float64_value float64_0_9 - 9 / 10\<bar> \<le> 1 / 2 ^ 54"
  by (simp add: float64_0_9_def)

lemma float64_0_5_exact: "float64_value float64_0_5 = 1 / 2"
  by (simp add: float64_0_5_def)

subsection \<open>The rewrites leave every field but the metrics alone\<close>

lemma updateHPATargetValue_fields:
  "updateHPATargetValue ann hpa containerName k targetValue = Returns (hpa', err) \<Longrightarrow>
   hpa' = hpa\<lparr>Spec_Metrics := Spec_Metrics hpa'\<rparr>"
  by (auto simp: updateHPATargetValue_def Let_def split: sum.splits exec.splits)

lemma updateContainerTargets_fields:
  "updateContainerTargets ann hpa containerName rs = Returns (hpa', err) \<Longrightarrow>
   hpa' = hpa\<lparr>Spec_Metrics := Spec_Metrics hpa'\<rparr>"
proof (induction rs arbitrary: hpa)
  case Nil
  then show ?case by simp
next
  case (Cons kr rs)
  obtain k r where kr: "kr = (k, r)" by (cases kr)
  from Cons.prems show ?case
  proof (cases "updateHPATargetValue ann hpa containerName k r")
    case Panics
    with Cons.prems kr show ?thesis by simp
  next
    case (Returns res)
    obtain h e where res: "res = (h, e)" by (cases res)
    have h: "h = hpa\<lparr>Spec_Metrics := Spec_Metrics h\<rparr>"
      using Returns res by (simp add: updateHPATargetValue_fields)
    show ?thesis
    proof (cases e)
      case None
      with Cons.prems kr Returns res
      have "updateContainerTargets ann h containerName rs = Returns (hpa', err)" by simp
      from Cons.IH[OF this] have "hpa' = h\<lparr>Spec_Metrics := Spec_Metrics hpa'\<rparr>" .
      then show ?thesis by (subst (asm) h) simp
    next
      case (Some e')
      with Cons.prems kr Returns res have "hpa' = h" by simp
      with h show ?thesis by simp
    qed
  qed
qed

lemma updateAllTargets_fields:
  "updateAllTargets ann hpa ts = Returns (hpa', err) \<Longrightarrow>
   hpa' = hpa\<lparr>Spec_Metrics := Spec_Metrics hpa'\<rparr>"
proof (induction ts arbitrary: hpa)
  case Nil
  then show ?case by simp
next
  case (Cons t ts)
  show ?case
  proof (cases "updateContainerTargets ann hpa (ContainerName t) (TargetUtilization t)")
    case Panics
    with Cons.prems show ?thesis by simp
  next
    case (Returns res)
    obtain h e where res: "res = (h, e)" by (cases res)
    have h: "h = hpa\<lparr>Spec_Metrics := Spec_Metrics h\<rparr>"
      using Returns res by (simp add: updateContainerTargets_fields)
    show ?thesis
    proof (cases e)
      case None
      with Cons.prems Returns res
      have "updateAllTargets ann h ts = Returns (hpa', err)" by simp
      from Cons.IH[OF this] have "hpa' = h\<lparr>Spec_Metrics := Spec_Metrics hpa'\<rparr>" .
      then show ?thesis by (subst (asm) h) simp
    next
      case (Some e')
      with Cons.prems Returns res have "hpa' = h" by simp
      with h show ?thesis by simp
    qed
  qed
qed

lemma updateAllTargets_MinReplicas:
  "updateAllTargets ann hpa ts = Returns (hpa', err) \<Longrightarrow>
   Spec_MinReplicas hpa' = Spec_MinReplicas hpa"
  by (drule updateAllTargets_fields) (erule ssubst, simp)

subsection \<open>The sample data\<close>

lemma sample_rewrites:
  "updateAllTargets sampleAnnotation (sampleHPA c)
     [\<lparr>ContainerName = ''api'', TargetUtilization = [(''cpu'', 60)]\<rparr>] =
   Returns ((sampleHPA c)\<lparr>Spec_Metrics :=
        [utilizationMetric ''api'' ''cpu'' 60,
         externalMetricSpec ''datadogmetric@default:app-cpu-api''
           \<lparr>Amount = 60, Scale = 0, QuantityFormat = DecimalSI\<rparr>,
         utilizationMetric ''worker'' ''cpu'' 50,
         externalMetricSpec ''datadogmetric@default:app-memory-api'' MustParse_90]\<rparr>, None)"
  by (simp add: updateHPATargetValue_def sampleHPA_def sampleAnnotation_def
      utilizationMetric_def externalMetricSpec_def setAverageUtilization_def
      setExternalValue_def externalMetricNameFromAnnotation_def GetAnnotation_def
      ResourceCPU_def ResourceMemory_def Quantity_Set_def MustParse_50_def MustParse_90_def)

lemma sample_get:
  "Get (client_c (sampleClient factor)) (sampleWorld c) (''default'', ''hpa'') = Inr (sampleHPA c)"
  by (simp add: sampleClient_def memoryClient_def sampleWorld_def)

lemma sample_update:
  "ObjectMeta_Namespace h = ''default'' \<Longrightarrow> ObjectMeta_Name h = ''hpa'' \<Longrightarrow>
   Update (client_c (sampleClient factor)) (sampleWorld c) h
     = (None, [(''default'', ''hpa'') \<mapsto> h])"
  by (simp add: sampleClient_def memoryClient_def sampleWorld_def)

lemma sample_tortoise_simps:
  "Status_TortoisePhase (sampleTortoise p mins) = p"
  "Spec_TargetRefs_HorizontalPodAutoscalerName (sampleTortoise p mins) = Some ''hpa''"
  "Namespace (sampleTortoise p mins) = ''default''"
  "Horizontal_TargetUtilizations (sampleTortoise p mins) =
     [\<lparr>ContainerName = ''api'', TargetUtilization = [(''cpu'', 60)]\<rparr>]"
  "Horizontal_MinReplicas (sampleTortoise p mins) = mins"
  "getReplicasRecommendation (Horizontal_MaxReplicas (sampleTortoise p mins)) sampleNow = Inr 12"
  by (simp_all add: sampleTortoise_def sampleNow_def)

lemma sample_tortoise_phase:
  "(sampleTortoise p mins)\<lparr>Status_TortoisePhase := q\<rparr> = sampleTortoise q mins"
  by (simp add: sampleTortoise_def)

subsection \<open>Lookup failures and the phase switch\<close>

lemma lookup_fails_iff:
  "getReplicasRecommendation slots now = Inl e \<longleftrightarrow>
     find (slot_matches now) slots = None \<and> e = Msg ''no recommendation slot''"
  by (auto simp: getReplicasRecommendation_find split: option.splits)

lemma switch_Inr_lookup:
  "switchTortoisePhase arch factor tortoise now minReplicas max' = Returns (Inr x) \<Longrightarrow>
   Status_TortoisePhase tortoise = TortoisePhaseEmergency \<or>
   find (slot_matches now) (Horizontal_MinReplicas tortoise) \<noteq> None"
  by (auto simp: switchTortoisePhase_def getReplicasRecommendation_find
      split: TortoisePhase.splits option.splits)

lemma update_only_after_lookups:
  assumes "UpdateCall h \<in> set (snd (snd
     (UpdateHPAFromTortoiseRecommendation ann arch cl w tortoise now)))
     \<or> fst (snd (UpdateHPAFromTortoiseRecommendation ann arch cl w tortoise now)) \<noteq> w
     \<or> fst (UpdateHPAFromTortoiseRecommendation ann arch cl w tortoise now)
          = Returns (Some h', t', err')
     \<or> fst (UpdateHPAFromTortoiseRecommendation ann arch cl w tortoise now)
          = Returns (h'', t', None)"
  shows "find (slot_matches now) (Horizontal_MaxReplicas tortoise) \<noteq> None \<and>
     (Status_TortoisePhase tortoise = TortoisePhaseEmergency \<or>
      find (slot_matches now) (Horizontal_MinReplicas tortoise) \<noteq> None)"
proof (cases "Spec_TargetRefs_HorizontalPodAutoscalerName tortoise")
  case None
  with assms show ?thesis by (simp add: UpdateHPAFromTortoiseRecommendation_def)
next
  case (Some name)
  show ?thesis
  proof (cases "Get (client_c cl) w (Namespace tortoise, name)")
    case (Inl e)
    with assms Some show ?thesis by (simp add: UpdateHPAFromTortoiseRecommendation_def)
  next
    case (Inr hpa)
    show ?thesis
    proof (cases "updateAllTargets ann hpa (Horizontal_TargetUtilizations tortoise)")
      case Panics
      with assms Some Inr show ?thesis by (simp add: UpdateHPAFromTortoiseRecommendation_def)
    next
      case (Returns res)
      obtain hpa1 e where res: "res = (hpa1, e)" by (cases res)
      show ?thesis
      proof (cases e)
        case (Some e')
        with assms \<open>Spec_TargetRefs_HorizontalPodAutoscalerName tortoise = Some name\<close> Inr Returns res
        show ?thesis by (simp add: UpdateHPAFromTortoiseRecommendation_def)
      next
        case None
        note e = None
        show ?thesis
        proof (cases "getReplicasRecommendation (Horizontal_MaxReplicas tortoise) now")
          case (Inl e1)
          with assms Some Inr Returns res e show ?thesis
            by (simp add: UpdateHPAFromTortoiseRecommendation_def)
        next
          case maxl: (Inr maxRec)
          then have m: "find (slot_matches now) (Horizontal_MaxReplicas tortoise) \<noteq> None"
            by (auto simp: getReplicasRecommendation_find split: option.splits)
          show ?thesis
          proof (cases "switchTortoisePhase arch (replicaReductionFactor cl) tortoise now
                          (Spec_MinReplicas (hpa1\<lparr>Spec_MaxReplicas := maxRec\<rparr>)) maxRec")
            case Panics
            with assms Some Inr Returns res e maxl show ?thesis
              by (simp add: UpdateHPAFromTortoiseRecommendation_def)
          next
            case sw: (Returns r)
            show ?thesis
            proof (cases r)
              case (Inl e2)
              with assms Some Inr Returns res e maxl sw show ?thesis
                by (simp add: UpdateHPAFromTortoiseRecommendation_def)
            next
              case (Inr x)
              with sw switch_Inr_lookup m show ?thesis by blast
            qed
          qed
        qed
      qed
    qed
  qed
qed

subsection \<open>Naming errors\<close>

lemma name_error_iff:
  "(\<exists>e. externalMetricNameFromAnnotation ann hpa containerName k = Inl e) \<longleftrightarrow>
     k \<noteq> ResourceCPU \<and> k \<noteq> ResourceMemory"
  by (simp add: externalMetricNameFromAnnotation_def)

lemma name_ignores_metrics:
  "externalMetricNameFromAnnotation ann (hpa\<lparr>Spec_Metrics := ms\<rparr>) containerName k =
   externalMetricNameFromAnnotation ann hpa containerName k"
  by (simp add: externalMetricNameFromAnnotation_def GetAnnotation_def)

lemma rewrite_error_is_name_error:
  "updateHPATargetValue ann hpa containerName k targetValue = Returns (hpa', Some e) \<Longrightarrow>
   externalMetricNameFromAnnotation ann hpa containerName k = Inl e"
  by (auto simp: updateHPATargetValue_def Let_def name_ignores_metrics
      split: sum.splits exec.splits)

lemma rewrite_unsupported:
  "k \<noteq> ResourceCPU \<Longrightarrow> k \<noteq> ResourceMemory \<Longrightarrow>
   updateHPATargetValue ann hpa containerName k targetValue =
     Returns (hpa\<lparr>Spec_Metrics :=
        map (setAverageUtilization containerName k targetValue) (Spec_Metrics hpa)\<rparr>,
        Some (NonSupportedResourceType k))"
  by (simp add: updateHPATargetValue_def Let_def externalMetricNameFromAnnotation_def)

subsection \<open>Rewriting twice\<close>

lemma setAverageUtilization_idem:
  "setAverageUtilization c k v (setAverageUtilization c k v m) = setAverageUtilization c k v m"
  by (simp add: setAverageUtilization_def split: option.splits)

lemma Quantity_Set_idem: "Quantity_Set (Quantity_Set q v) v = Quantity_Set q v"
  by (simp add: Quantity_Set_def)

lemma setExternalValue_idem:
  "setExternalValue n v m = Returns m' \<Longrightarrow> setExternalValue n v m' = Returns m'"
  by (auto simp: setExternalValue_def Quantity_Set_idem split: if_splits option.splits)

lemma setExternalValue_keeps_utilization:
  "setExternalValue n v m = Returns m' \<Longrightarrow>
   setAverageUtilization c k u m = m \<Longrightarrow> setAverageUtilization c k u m' = m'"
  by (auto simp: setExternalValue_def setAverageUtilization_def
      split: if_splits option.splits)

lemma setExternalValues_idem:
  "setExternalValues n v ms = Returns ms' \<Longrightarrow> setExternalValues n v ms' = Returns ms'"
proof (induction ms arbitrary: ms')
  case Nil
  then show ?case by simp
next
  case (Cons m ms)
  from Cons.prems obtain m' rest where
    m': "setExternalValue n v m = Returns m'" and
    rest: "setExternalValues n v ms = Returns rest" and
    ms': "ms' = m' # rest"
    by (auto split: exec.splits)
  show ?case unfolding ms' using setExternalValue_idem[OF m'] Cons.IH[OF rest] by simp
qed

lemma setExternalValues_keeps_utilization:
  "setExternalValues n v ms = Returns ms' \<Longrightarrow>
   map (setAverageUtilization c k u) ms = ms \<Longrightarrow> map (setAverageUtilization c k u) ms' = ms'"
proof (induction ms arbitrary: ms')
  case Nil
  then show ?case by simp
next
  case (Cons m ms)
  from Cons.prems(1) obtain m' rest where
    m': "setExternalValue n v m = Returns m'" and
    rest: "setExternalValues n v ms = Returns rest" and
    ms': "ms' = m' # rest"
    by (auto split: exec.splits)
  from Cons.prems(2) have a: "setAverageUtilization c k u m = m"
    and b: "map (setAverageUtilization c k u) ms = ms" by simp_all
  show ?case unfolding ms'
    using setExternalValue_keeps_utilization[OF m' a] Cons.IH[OF rest b] by simp
qed

lemma map_setAverageUtilization_idem:
  "map (setAverageUtilization c k v) (map (setAverageUtilization c k v) ms)
     = map (setAverageUtilization c k v) ms"
  by (simp add: setAverageUtilization_idem)

subsection \<open>The frame of a rewrite\<close>

lemma setAverageUtilization_frame:
  "\<not> metricSpecFor ann hpa c k m \<Longrightarrow> setAverageUtilization c k v m = m"
  by (auto simp: metricSpecFor_def setAverageUtilization_def split: option.splits)

lemma setExternalValue_frame:
  "\<not> metricSpecFor ann hpa c k m \<Longrightarrow>
   externalMetricNameFromAnnotation ann hpa c k = Inr n \<Longrightarrow>
   setExternalValue n v m = Returns m' \<Longrightarrow> m' = m"
  by (auto simp: metricSpecFor_def setExternalValue_def split: option.splits if_splits)

lemma setExternalValues_length:
  "setExternalValues n v ms = Returns ms' \<Longrightarrow> length ms' = length ms"
proof (induction ms arbitrary: ms')
  case Nil
  then show ?case by simp
next
  case (Cons m ms)
  then show ?case by (auto split: exec.splits)
qed

lemma setExternalValues_nth:
  "setExternalValues n v ms = Returns ms' \<Longrightarrow> i < length ms \<Longrightarrow>
   setExternalValue n v (ms ! i) = Returns (ms' ! i)"
proof (induction ms arbitrary: ms' i)
  case Nil
  then show ?case by simp
next
  case (Cons m ms)
  from Cons.prems(1) obtain m' rest where
    m': "setExternalValue n v m = Returns m'" and
    rest: "setExternalValues n v ms = Returns rest" and
    ms': "ms' = m' # rest"
    by (auto split: exec.splits)
  show ?case
  proof (cases i)
    case 0
    then show ?thesis using m' ms' by simp
  next
    case (Suc j)
    then have "j < length ms" using Cons.prems(2) by simp
    from Cons.IH[OF rest this] show ?thesis using Suc ms' by simp
  qed
qed

lemma metricSpecFor_ignores_metrics:
  "metricSpecFor ann (hpa\<lparr>Spec_Metrics := ms\<rparr>) c k m = metricSpecFor ann hpa c k m"
  by (simp add: metricSpecFor_def name_ignores_metrics
      split: MetricSourceType.splits option.splits)

lemma rewrite_frame:
  assumes r: "updateHPATargetValue ann hpa c k v = Returns (hpa', err)"
  shows "length (Spec_Metrics hpa') = length (Spec_Metrics hpa)"
    and "i < length (Spec_Metrics hpa) \<Longrightarrow> \<not> metricSpecFor ann hpa c k (Spec_Metrics hpa ! i)
         \<Longrightarrow> Spec_Metrics hpa' ! i = Spec_Metrics hpa ! i"
proof -
  define ms1 where "ms1 = map (setAverageUtilization c k v) (Spec_Metrics hpa)"
  have len1: "length ms1 = length (Spec_Metrics hpa)" by (simp add: ms1_def)
  have nth1: "ms1 ! i = Spec_Metrics hpa ! i"
    if "i < length (Spec_Metrics hpa)" "\<not> metricSpecFor ann hpa c k (Spec_Metrics hpa ! i)" for i
    using that by (simp add: ms1_def setAverageUtilization_frame)
  show "length (Spec_Metrics hpa') = length (Spec_Metrics hpa)"
  proof (cases "externalMetricNameFromAnnotation ann hpa c k")
    case (Inl e)
    with r show ?thesis
      by (auto simp: updateHPATargetValue_def Let_def name_ignores_metrics)
  next
    case (Inr n)
    with r obtain ms2 where ms2: "setExternalValues n v ms1 = Returns ms2"
      and h: "Spec_Metrics hpa' = ms2"
      by (auto simp: updateHPATargetValue_def Let_def name_ignores_metrics ms1_def
          split: exec.splits)
    from setExternalValues_length[OF ms2] h len1 show ?thesis by simp
  qed
  show "Spec_Metrics hpa' ! i = Spec_Metrics hpa ! i"
    if i: "i < length (Spec_Metrics hpa)"
      and n: "\<not> metricSpecFor ann hpa c k (Spec_Metrics hpa ! i)"
  proof (cases "externalMetricNameFromAnnotation ann hpa c k")
    case (Inl e)
    with r have "Spec_Metrics hpa' = ms1"
      by (auto simp: updateHPATargetValue_def Let_def name_ignores_metrics ms1_def)
    with nth1[OF i n] show ?thesis by simp
  next
    case (Inr nm)
    with r obtain ms2 where ms2: "setExternalValues nm v ms1 = Returns ms2"
      and h: "Spec_Metrics hpa' = ms2"
      by (auto simp: updateHPATargetValue_def Let_def name_ignores_metrics ms1_def
          split: exec.splits)
    have "setExternalValue nm v (ms1 ! i) = Returns (ms2 ! i)"
      using setExternalValues_nth[OF ms2] i len1 by simp
    then have "setExternalValue nm v (Spec_Metrics hpa ! i) = Returns (ms2 ! i)"
      using nth1[OF i n] by simp
    from setExternalValue_frame[OF n Inr this] h show ?thesis by simp
  qed
qed

lemma external_name_container:
  "externalMetricNameFromAnnotation ann hpa c k = Inr n \<Longrightarrow>
   externalMetricNameFromAnnotation ann hpa c' k = Inr n \<Longrightarrow> c = c'"
  by (auto simp: externalMetricNameFromAnnotation_def split: if_splits)

lemma external_name_kind:
  "GetAnnotation hpa (HPAContainerBasedCPUExternalMetricNamePrefixAnnotation ann) \<noteq>
   GetAnnotation hpa (HPAContainerBasedMemoryExternalMetricNamePrefixAnnotation ann) \<Longrightarrow>
   externalMetricNameFromAnnotation ann hpa c ResourceMemory = Inr n \<Longrightarrow>
   externalMetricNameFromAnnotation ann hpa c ResourceCPU \<noteq> Inr n"
  by (auto simp: externalMetricNameFromAnnotation_def ResourceCPU_def ResourceMemory_def)

lemma metricSpecFor_other_container:
  "c \<noteq> c' \<Longrightarrow> metricSpecFor ann hpa c k m \<Longrightarrow> \<not> metricSpecFor ann hpa c' k m"
  using external_name_container[of ann hpa c k _ c']
  by (auto simp: metricSpecFor_def split: MetricSourceType.splits option.splits)

lemma metricSpecFor_memory_not_cpu:
  "GetAnnotation hpa (HPAContainerBasedCPUExternalMetricNamePrefixAnnotation ann) \<noteq>
   GetAnnotation hpa (HPAContainerBasedMemoryExternalMetricNamePrefixAnnotation ann) \<Longrightarrow>
   metricSpecFor ann hpa c ResourceMemory m \<Longrightarrow> \<not> metricSpecFor ann hpa c ResourceCPU m"
  using external_name_kind[of hpa ann c]
  by (auto simp: metricSpecFor_def ResourceCPU_def ResourceMemory_def
      split: MetricSourceType.splits option.splits)

subsection \<open>The metrics of the bootstrap\<close>






lemma bootstrap_replicas_7:
  "Spec_MinReplicas (defaultHPA ann arch tortoise name \<lparr>Status_Replicas = 7\<rparr>) = Some 4"
  "Spec_MaxReplicas (defaultHPA ann arch tortoise name \<lparr>Status_Replicas = 7\<rparr>) = 14"
  by (simp_all add: defaultHPA_def float64_of_int32_def float64_round_def compute_bitlen
      trunc_toward_zero_def Let_def)








text \<open>\<^verbatim>\<open>apierrors.IsAlreadyExists\<close> on nil, bare and wrapped errors.\<close>

lemma IsAlreadyExists_simps:
  "IsAlreadyExists None = False"
  "IsAlreadyExists (Some (ApiError AlreadyExists)) = True"
  "IsAlreadyExists (Some (Wrap s (ApiError AlreadyExists))) = True"
  "IsAlreadyExists (Some (ApiError Conflict)) = False"
  by (simp_all add: IsAlreadyExists_def)

subsection \<open>Reconciliation passes in a row\<close>

lemma working_passes:
  assumes p: "Status_TortoisePhase t \<noteq> TortoisePhaseEmergency"
      "Status_TortoisePhase t \<noteq> TortoisePhaseBackToNormal"
    and minl: "getReplicasRecommendation (Horizontal_MinReplicas t) now = Inr idealMin"
  shows "planPasses arch factor now max' (Suc n) (c, t) = Returns (Inr (idealMin, t))"
proof (induction n arbitrary: c)
  case 0
  show ?case by (simp add: switch_default[OF p minl])
next
  case (Suc n)
  have "planPasses arch factor now max' (Suc (Suc n)) (c, t)
      = planPasses arch factor now max' (Suc n) (idealMin, t)"
    by (simp add: switch_default[OF p minl])
  then show ?case using Suc.IH by simp
qed

lemma tortoise_working_simps:
  "Status_TortoisePhase (t\<lparr>Status_TortoisePhase := TortoisePhaseWorking\<rparr>) \<noteq> TortoisePhaseEmergency"
  "Status_TortoisePhase (t\<lparr>Status_TortoisePhase := TortoisePhaseWorking\<rparr>)
     \<noteq> TortoisePhaseBackToNormal"
  "Horizontal_MinReplicas (t\<lparr>Status_TortoisePhase := TortoisePhaseWorking\<rparr>)
     = Horizontal_MinReplicas t"
  by simp_all


lemma backToNormal_pass:
  assumes phase: "Status_TortoisePhase t = TortoisePhaseBackToNormal"
    and minl: "getReplicasRecommendation (Horizontal_MinReplicas t) now = Inr idealMin"
  shows "planPasses arch factor now max' (Suc n) (c, t) =
     planPasses arch factor now max' n
       (if sint idealMin > sint (reducedMinReplicas arch factor c)
        then (idealMin, t\<lparr>Status_TortoisePhase := TortoisePhaseWorking\<rparr>)
        else (reducedMinReplicas arch factor c, t))"
  by (simp add: switch_backToNormal[OF phase minl])

lemma passes_after_crossing:
  assumes minl: "getReplicasRecommendation (Horizontal_MinReplicas t) now = Inr idealMin"
  shows "planPasses arch factor now max' n
           (idealMin, t\<lparr>Status_TortoisePhase := TortoisePhaseWorking\<rparr>)
         = Returns (Inr (idealMin, t\<lparr>Status_TortoisePhase := TortoisePhaseWorking\<rparr>))"
proof (cases n)
  case 0
  then show ?thesis by simp
next
  case (Suc m)
  have "getReplicasRecommendation
      (Horizontal_MinReplicas (t\<lparr>Status_TortoisePhase := TortoisePhaseWorking\<rparr>)) now
      = Inr idealMin" using minl by simp
  from working_passes[OF tortoise_working_simps(1,2) this] Suc show ?thesis by simp
qed

section \<open>The claims\<close>

text \<open>
  C1, as amended. In phase BackToNormal, when the HPA is fetched, the rewrites succeed
  and both time-window lookups succeed, the planner computes the reduced minimum from the
  live minReplicas of the fetched HPA: it is the floor of the \<^verbatim>\<open>float64\<close> product of
  that minimum and the reduction factor, the product as Go computes it, rounded to the
  nearest \<^verbatim>\<open>float64\<close> with ties to even, whenever the product is finite, not negative
  and below \<open>2 ^ 31\<close> (\<open>unit_interval_product\<close>: it always is for a minimum that is
  not negative and a factor in the unit interval). When the ideal minimum is above the
  reduced minimum, the new minReplicas is the ideal minimum and the phase becomes
  Working; otherwise the new minReplicas is the reduced minimum and the phase stays
  BackToNormal. The HPA handed to \<open>Update\<close> and returned carries that minimum and the
  looked-up maximum. With currentMin 10, factor 0.5 and idealMin 6 the reduced minimum is
  5 and the result is 6 and Working; with factor 0.9 the reduced minimum is 9 and the
  result is 9 and BackToNormal.
\<close>

theorem backToNormal_plan:
  assumes phase: "Status_TortoisePhase tortoise = TortoisePhaseBackToNormal"
    and name: "Spec_TargetRefs_HorizontalPodAutoscalerName tortoise = Some name"
    and get: "Get (client_c cl) w (Namespace tortoise, name) = Inr hpa"
    and rw:
      "updateAllTargets ann hpa (Horizontal_TargetUtilizations tortoise) = Returns (hpa1, None)"
    and maxl: "getReplicasRecommendation (Horizontal_MaxReplicas tortoise) now = Inr maxRec"
    and minl: "getReplicasRecommendation (Horizontal_MinReplicas tortoise) now = Inr idealMin"
    and cur: "Spec_MinReplicas hpa = Some currentMin"
    and prod: "float64_mul (float64_of_int32 currentMin) (replicaReductionFactor cl) = product"
      "is_finite product" "0 \<le> float64_value product" "float64_value product < 2 ^ 31"
  shows "\<exists>reducedMin newMin newPhase hpa'.
      sint reducedMin = \<lfloor>float64_value product\<rfloor>
    \<and> (newMin, newPhase) =
          (if sint idealMin > sint reducedMin then (idealMin, TortoisePhaseWorking)
           else (reducedMin, TortoisePhaseBackToNormal))
    \<and> hpa' = hpa1\<lparr>Spec_MaxReplicas := maxRec, Spec_MinReplicas := Some newMin\<rparr>
    \<and> UpdateHPAFromTortoiseRecommendation ann arch cl w tortoise now =
          (Returns (Some hpa', tortoise\<lparr>Status_TortoisePhase := newPhase\<rparr>,
                    fst (Update (client_c cl) w hpa')),
           snd (Update (client_c cl) w hpa'),
           [GetCall (Namespace tortoise, name), UpdateCall hpa'])
    \<and> (currentMin = 10 \<and> replicaReductionFactor cl = float64_0_5 \<and> idealMin = 6 \<longrightarrow>
          sint reducedMin = 5 \<and> newMin = 6 \<and> newPhase = TortoisePhaseWorking)
    \<and> (currentMin = 10 \<and> replicaReductionFactor cl = float64_0_9 \<and> idealMin = 6 \<longrightarrow>
          sint reducedMin = 9 \<and> newMin = 9 \<and> newPhase = TortoisePhaseBackToNormal)"
proof -
  define factor where "factor = replicaReductionFactor cl"
  define reducedMin where "reducedMin = reducedMinReplicas arch factor currentMin"
  define newMin where
    "newMin = (if sint idealMin > sint reducedMin then idealMin else reducedMin)"
  define newPhase where
    "newPhase = (if sint idealMin > sint reducedMin then TortoisePhaseWorking
                 else TortoisePhaseBackToNormal)"
  define hpa' where "hpa' = hpa1\<lparr>Spec_MaxReplicas := maxRec, Spec_MinReplicas := Some newMin\<rparr>"
  have fl: "sint reducedMin = \<lfloor>float64_value product\<rfloor>"
    unfolding reducedMin_def reducedMinReplicas_def factor_def prod(1)
    by (rule int32_of_Trunc_floor[OF prod(2,3,4)])
  have cur1: "Spec_MinReplicas hpa1 = Some currentMin"
    using updateAllTargets_MinReplicas[OF rw] cur by simp
  have same: "tortoise\<lparr>Status_TortoisePhase := TortoisePhaseBackToNormal\<rparr> = tortoise"
    using phase by simp
  have sw: "switchTortoisePhase arch factor tortoise now (Some currentMin) maxRec =
      Returns (Inr (newMin, tortoise\<lparr>Status_TortoisePhase := newPhase\<rparr>))"
    unfolding switch_backToNormal[OF phase minl] newMin_def newPhase_def reducedMin_def
    using same by simp
  have run: "UpdateHPAFromTortoiseRecommendation ann arch cl w tortoise now =
          (Returns (Some hpa', tortoise\<lparr>Status_TortoisePhase := newPhase\<rparr>,
                    fst (Update (client_c cl) w hpa')),
           snd (Update (client_c cl) w hpa'),
           [GetCall (Namespace tortoise, name), UpdateCall hpa'])"
    using name get rw maxl cur1 sw
    by (simp add: UpdateHPAFromTortoiseRecommendation_def Let_def case_prod_beta hpa'_def
        factor_def)
  have s1: "currentMin = 10 \<and> replicaReductionFactor cl = float64_0_5 \<and> idealMin = 6 \<longrightarrow>
          sint reducedMin = 5 \<and> newMin = 6 \<and> newPhase = TortoisePhaseWorking"
    by (simp add: newMin_def newPhase_def reducedMin_def reduced_10_half factor_def)
  have s2: "currentMin = 10 \<and> replicaReductionFactor cl = float64_0_9 \<and> idealMin = 6 \<longrightarrow>
          sint reducedMin = 9 \<and> newMin = 9 \<and> newPhase = TortoisePhaseBackToNormal"
    by (simp add: newMin_def newPhase_def reducedMin_def reduced_10_0_9 factor_def)
  have pair: "(newMin, newPhase) =
          (if sint idealMin > sint reducedMin then (idealMin, TortoisePhaseWorking)
           else (reducedMin, TortoisePhaseBackToNormal))"
    by (simp add: newMin_def newPhase_def)
  from fl pair hpa'_def run s1 s2 show ?thesis by blast
qed

theorem backToNormal_plan_witness:
  "fst (UpdateHPAFromTortoiseRecommendation sampleAnnotation sampleArch
          (sampleClient float64_0_5) (sampleWorld 10)
          (sampleTortoise TortoisePhaseBackToNormal
             [\<lparr>From = 0, To = 24, WeekDay = Monday, Value = 6\<rparr>]) sampleNow)
     = Returns (Some ((sampleHPA 6)\<lparr>Spec_MaxReplicas := 12, Spec_Metrics :=
        [utilizationMetric ''api'' ''cpu'' 60,
         externalMetricSpec ''datadogmetric@default:app-cpu-api''
           \<lparr>Amount = 60, Scale = 0, QuantityFormat = DecimalSI\<rparr>,
         utilizationMetric ''worker'' ''cpu'' 50,
         externalMetricSpec ''datadogmetric@default:app-memory-api'' MustParse_90]\<rparr>),
        sampleTortoise TortoisePhaseWorking
             [\<lparr>From = 0, To = 24, WeekDay = Monday, Value = 6\<rparr>], None)
   \<and> fst (UpdateHPAFromTortoiseRecommendation sampleAnnotation sampleArch
          (sampleClient float64_0_9) (sampleWorld 10)
          (sampleTortoise TortoisePhaseBackToNormal
             [\<lparr>From = 0, To = 24, WeekDay = Monday, Value = 6\<rparr>]) sampleNow)
     = Returns (Some ((sampleHPA 9)\<lparr>Spec_MaxReplicas := 12, Spec_Metrics :=
        [utilizationMetric ''api'' ''cpu'' 60,
         externalMetricSpec ''datadogmetric@default:app-cpu-api''
           \<lparr>Amount = 60, Scale = 0, QuantityFormat = DecimalSI\<rparr>,
         utilizationMetric ''worker'' ''cpu'' 50,
         externalMetricSpec ''datadogmetric@default:app-memory-api'' MustParse_90]\<rparr>),
        sampleTortoise TortoisePhaseBackToNormal
             [\<lparr>From = 0, To = 24, WeekDay = Monday, Value = 6\<rparr>], None)"
proof -
  let ?t = "sampleTortoise TortoisePhaseBackToNormal
             [\<lparr>From = 0, To = 24, WeekDay = Monday, Value = 6\<rparr>]"
  have minl: "getReplicasRecommendation (Horizontal_MinReplicas ?t) sampleNow = Inr 6"
    by (simp add: sample_tortoise_simps sampleNow_def)
  have rws: "updateAllTargets sampleAnnotation (sampleHPA 10) (Horizontal_TargetUtilizations ?t)
      = Returns ((sampleHPA 10)\<lparr>Spec_Metrics :=
        [utilizationMetric ''api'' ''cpu'' 60,
         externalMetricSpec ''datadogmetric@default:app-cpu-api''
           \<lparr>Amount = 60, Scale = 0, QuantityFormat = DecimalSI\<rparr>,
         utilizationMetric ''worker'' ''cpu'' 50,
         externalMetricSpec ''datadogmetric@default:app-memory-api'' MustParse_90]\<rparr>, None)"
    by (simp only: sample_tortoise_simps sample_rewrites)
  have get: "Get (client_c (sampleClient f)) (sampleWorld 10) (Namespace ?t, ''hpa'')
      = Inr (sampleHPA 10)" for f
    by (simp only: sample_tortoise_simps sample_get)
  have cur: "Spec_MinReplicas (sampleHPA 10) = Some 10" by (simp add: sampleHPA_def)
  have v5: "is_finite float64_0_5" "valid_float64 float64_0_5"
      "0 \<le> float64_value float64_0_5" "float64_value float64_0_5 \<le> 1"
    by (simp_all add: float64_0_5_def)
  have v9: "is_finite float64_0_9" "valid_float64 float64_0_9"
      "0 \<le> float64_value float64_0_9" "float64_value float64_0_9 \<le> 1"
    by (simp_all add: float64_0_9_def)
  have c: "0 \<le> sint (10 :: int32)" by simp
  have f5: "replicaReductionFactor (sampleClient float64_0_5) = float64_0_5"
    and f9: "replicaReductionFactor (sampleClient float64_0_9) = float64_0_9"
    by (simp_all add: sampleClient_def)
  have p5: "float64_mul (float64_of_int32 10) (replicaReductionFactor (sampleClient float64_0_5))
      = float64_mul (float64_of_int32 10) float64_0_5" by (simp only: f5)
  have p9: "float64_mul (float64_of_int32 10) (replicaReductionFactor (sampleClient float64_0_9))
      = float64_mul (float64_of_int32 10) float64_0_9" by (simp only: f9)
  from backToNormal_plan[where arch = sampleArch, OF sample_tortoise_simps(1)
        sample_tortoise_simps(2) get rws sample_tortoise_simps(6) minl cur p5
        unit_interval_product[OF v5 c]]
  have a: "fst (UpdateHPAFromTortoiseRecommendation sampleAnnotation sampleArch
          (sampleClient float64_0_5) (sampleWorld 10) ?t sampleNow)
     = Returns (Some ((sampleHPA 6)\<lparr>Spec_MaxReplicas := 12, Spec_Metrics :=
        [utilizationMetric ''api'' ''cpu'' 60,
         externalMetricSpec ''datadogmetric@default:app-cpu-api''
           \<lparr>Amount = 60, Scale = 0, QuantityFormat = DecimalSI\<rparr>,
         utilizationMetric ''worker'' ''cpu'' 50,
         externalMetricSpec ''datadogmetric@default:app-memory-api'' MustParse_90]\<rparr>),
        sampleTortoise TortoisePhaseWorking
             [\<lparr>From = 0, To = 24, WeekDay = Monday, Value = 6\<rparr>], None)"
    by (auto simp: sampleHPA_def sampleClient_def memoryClient_def sampleWorld_def
        sample_tortoise_phase)
  from backToNormal_plan[where arch = sampleArch, OF sample_tortoise_simps(1)
        sample_tortoise_simps(2) get rws sample_tortoise_simps(6) minl cur p9
        unit_interval_product[OF v9 c]]
  have b: "fst (UpdateHPAFromTortoiseRecommendation sampleAnnotation sampleArch
          (sampleClient float64_0_9) (sampleWorld 10) ?t sampleNow)
     = Returns (Some ((sampleHPA 9)\<lparr>Spec_MaxReplicas := 12, Spec_Metrics :=
        [utilizationMetric ''api'' ''cpu'' 60,
         externalMetricSpec ''datadogmetric@default:app-cpu-api''
           \<lparr>Amount = 60, Scale = 0, QuantityFormat = DecimalSI\<rparr>,
         utilizationMetric ''worker'' ''cpu'' 50,
         externalMetricSpec ''datadogmetric@default:app-memory-api'' MustParse_90]\<rparr>),
        sampleTortoise TortoisePhaseBackToNormal
             [\<lparr>From = 0, To = 24, WeekDay = Monday, Value = 6\<rparr>], None)"
    by (auto simp: sampleHPA_def sampleClient_def memoryClient_def sampleWorld_def
        sample_tortoise_phase)
  from a b show ?thesis by simp
qed

text \<open>
  C1 as stated fails, where the floor is taken of the exact product: with the live
  minimum 3, the factor the \<^verbatim>\<open>float64\<close> nearest to one third and the ideal minimum
  1, the exact product is just below 1 and its floor is 0, below the ideal minimum, so
  the phase would become Working; the \<^verbatim>\<open>float64\<close> product rounds to 1, the reduced
  minimum is 1, the ideal minimum is not above it, and the call returns the tortoise
  still in BackToNormal.
\<close>

theorem exact_floor_is_not_the_reduced_minimum:
  "Spec_MinReplicas (sampleHPA 3) = Some 3
   \<and> replicaReductionFactor (sampleClient float64_third) = float64_third
   \<and> 0 < float64_value float64_third \<and> float64_value float64_third < 1
   \<and> getReplicasRecommendation
         [\<lparr>From = 0, To = 24, WeekDay = Monday, Value = 1\<rparr>] sampleNow = Inr 1
   \<and> \<lfloor>real_of_int (sint (3 :: int32)) * float64_value float64_third\<rfloor> = 0
   \<and> sint (1 :: int32) > 0
   \<and> reducedMinReplicas sampleArch float64_third 3 = 1
   \<and> fst (UpdateHPAFromTortoiseRecommendation sampleAnnotation sampleArch
          (sampleClient float64_third) (sampleWorld 3)
          (sampleTortoise TortoisePhaseBackToNormal
             [\<lparr>From = 0, To = 24, WeekDay = Monday, Value = 1\<rparr>]) sampleNow)
     = Returns (Some ((sampleHPA 1)\<lparr>Spec_MaxReplicas := 12, Spec_Metrics :=
        [utilizationMetric ''api'' ''cpu'' 60,
         externalMetricSpec ''datadogmetric@default:app-cpu-api''
           \<lparr>Amount = 60, Scale = 0, QuantityFormat = DecimalSI\<rparr>,
         utilizationMetric ''worker'' ''cpu'' 50,
         externalMetricSpec ''datadogmetric@default:app-memory-api'' MustParse_90]\<rparr>),
        sampleTortoise TortoisePhaseBackToNormal
             [\<lparr>From = 0, To = 24, WeekDay = Monday, Value = 1\<rparr>], None)
   \<and> TortoisePhaseBackToNormal \<noteq> TortoisePhaseWorking"
proof -
  let ?mins = "[\<lparr>From = 0, To = 24, WeekDay = Monday, Value = 1\<rparr>]"
  let ?t = "sampleTortoise TortoisePhaseBackToNormal ?mins"
  have minl: "getReplicasRecommendation ?mins sampleNow = Inr 1"
    by (simp add: sampleNow_def)
  have minl': "getReplicasRecommendation (Horizontal_MinReplicas ?t) sampleNow = Inr 1"
    by (simp only: sample_tortoise_simps minl)
  have sw: "switchTortoisePhase sampleArch float64_third ?t sampleNow (Some 3) 12
      = Returns (Inr (1, ?t))"
    unfolding switch_backToNormal[OF sample_tortoise_simps(1) minl']
    by (simp add: reduced_3_third)
  let ?h = "(sampleHPA 3)\<lparr>Spec_Metrics :=
        [utilizationMetric ''api'' ''cpu'' 60,
         externalMetricSpec ''datadogmetric@default:app-cpu-api''
           \<lparr>Amount = 60, Scale = 0, QuantityFormat = DecimalSI\<rparr>,
         utilizationMetric ''worker'' ''cpu'' 50,
         externalMetricSpec ''datadogmetric@default:app-memory-api'' MustParse_90]\<rparr>"
  have get: "Get (client_c (sampleClient float64_third)) (sampleWorld 3) (Namespace ?t, ''hpa'')
      = Inr (sampleHPA 3)"
    by (simp only: sample_tortoise_simps sample_get)
  have rws: "updateAllTargets sampleAnnotation (sampleHPA 3) (Horizontal_TargetUtilizations ?t)
      = Returns (?h, None)"
    by (simp only: sample_tortoise_simps sample_rewrites)
  have f: "replicaReductionFactor (sampleClient float64_third) = float64_third"
    by (simp add: sampleClient_def)
  have cur: "Spec_MinReplicas (sampleHPA 3) = Some 3"
    by (simp add: sampleHPA_def)
  have upd: "Update (client_c (sampleClient float64_third)) (sampleWorld 3)
      (?h\<lparr>Spec_MaxReplicas := 12, Spec_MinReplicas := Some 1\<rparr>)
      = (None, [(''default'', ''hpa'') \<mapsto> ?h\<lparr>Spec_MaxReplicas := 12, Spec_MinReplicas := Some 1\<rparr>])"
    by (rule sample_update) (simp_all add: sampleHPA_def)
  have "fst (UpdateHPAFromTortoiseRecommendation sampleAnnotation sampleArch
          (sampleClient float64_third) (sampleWorld 3) ?t sampleNow)
     = Returns (Some (?h\<lparr>Spec_MaxReplicas := 12, Spec_MinReplicas := Some 1\<rparr>), ?t, None)"
    unfolding UpdateHPAFromTortoiseRecommendation_def
    by (simp add: sample_tortoise_simps(2) get rws sample_tortoise_simps(6) f cur sw upd
        Let_def del: updateAllTargets.simps getReplicasRecommendation.simps)
  then have run: "fst (UpdateHPAFromTortoiseRecommendation sampleAnnotation sampleArch
          (sampleClient float64_third) (sampleWorld 3) ?t sampleNow)
     = Returns (Some ((sampleHPA 1)\<lparr>Spec_MaxReplicas := 12, Spec_Metrics :=
        [utilizationMetric ''api'' ''cpu'' 60,
         externalMetricSpec ''datadogmetric@default:app-cpu-api''
           \<lparr>Amount = 60, Scale = 0, QuantityFormat = DecimalSI\<rparr>,
         utilizationMetric ''worker'' ''cpu'' 50,
         externalMetricSpec ''datadogmetric@default:app-memory-api'' MustParse_90]\<rparr>),
        ?t, None)"
    by (simp add: sampleHPA_def)
  show ?thesis
    using minl third_exact_floor reduced_3_third[of sampleArch] run float64_third_unit(3,4)
    by (simp add: sampleHPA_def sampleClient_def)
qed

text \<open>
  C2. For every reduction factor that is a \<^verbatim>\<open>float64\<close> in the unit interval and
  strictly below 1, every ideal minimum of at least 1 and every starting minimum, the
  passes of the BackToNormal plan step, each fed the minimum the pass before produced,
  all return; the phase is BackToNormal before pass \<open>k\<close> and Working from pass \<open>k\<close>
  on, for a \<open>k\<close> of at least 1 and at most the starting minimum (at most 1 when that
  is below 1); the minimum does not increase from pass to pass (it decreases strictly)
  before the crossing; from the crossing on it is the ideal minimum, and after every
  pass it is at least the ideal minimum.
\<close>

theorem backToNormal_converges:
  assumes f: "is_finite factor" "valid_float64 factor"
      "0 \<le> float64_value factor" "float64_value factor < 1"
    and phase: "Status_TortoisePhase tortoise = TortoisePhaseBackToNormal"
    and minl: "getReplicasRecommendation (Horizontal_MinReplicas tortoise) now = Inr idealMin"
    and ideal: "1 \<le> sint idealMin"
  shows "\<exists>k mins.
       1 \<le> k \<and> int k \<le> max 1 (sint currentMin)
     \<and> mins 0 = currentMin
     \<and> (\<forall>n. planPasses arch factor now max' n (currentMin, tortoise) =
              Returns (Inr (mins n, tortoise\<lparr>Status_TortoisePhase :=
                 (if n < k then TortoisePhaseBackToNormal else TortoisePhaseWorking)\<rparr>)))
     \<and> (\<forall>n. Suc n < k \<longrightarrow> sint (mins (Suc n)) \<le> sint (mins n))
     \<and> (\<forall>n. Suc n < k \<longrightarrow> sint (mins (Suc n)) < sint (mins n))
     \<and> (\<forall>n. k \<le> n \<longrightarrow> mins n = idealMin)
     \<and> (\<forall>n. 0 < n \<longrightarrow> sint idealMin \<le> sint (mins n))"
proof (induction "nat (sint currentMin)" arbitrary: currentMin rule: less_induct)
  case less
  let ?W = "tortoise\<lparr>Status_TortoisePhase := TortoisePhaseWorking\<rparr>"
  define red where "red = reducedMinReplicas arch factor currentMin"
  have f1: "float64_value factor \<le> 1" using f(4) by simp
  have same: "tortoise\<lparr>Status_TortoisePhase := TortoisePhaseBackToNormal\<rparr> = tortoise"
    using phase by simp
  have step: "planPasses arch factor now max' (Suc n) (currentMin, tortoise) =
     planPasses arch factor now max' n
       (if sint idealMin > sint red then (idealMin, ?W) else (red, tortoise))" for n
    unfolding red_def by (rule backToNormal_pass[OF phase minl])
  show ?case
  proof (cases "sint idealMin > sint red")
    case True
    define mins where "mins = (\<lambda>n::nat. if n = 0 then currentMin else idealMin)"
    have run: "planPasses arch factor now max' n (currentMin, tortoise) =
              Returns (Inr (mins n, tortoise\<lparr>Status_TortoisePhase :=
                 (if n < 1 then TortoisePhaseBackToNormal else TortoisePhaseWorking)\<rparr>))" for n
    proof (cases n)
      case 0
      then show ?thesis by (simp add: mins_def same)
    next
      case (Suc m)
      then show ?thesis
        using step[of m] True passes_after_crossing[OF minl, of arch factor max' m]
        by (simp add: mins_def)
    qed
    have "(1::nat) \<le> 1 \<and> int 1 \<le> max 1 (sint currentMin)
     \<and> mins 0 = currentMin
     \<and> (\<forall>n. planPasses arch factor now max' n (currentMin, tortoise) =
              Returns (Inr (mins n, tortoise\<lparr>Status_TortoisePhase :=
                 (if n < 1 then TortoisePhaseBackToNormal else TortoisePhaseWorking)\<rparr>)))
     \<and> (\<forall>n. Suc n < 1 \<longrightarrow> sint (mins (Suc n)) \<le> sint (mins n))
     \<and> (\<forall>n. Suc n < 1 \<longrightarrow> sint (mins (Suc n)) < sint (mins n))
     \<and> (\<forall>n. 1 \<le> n \<longrightarrow> mins n = idealMin)
     \<and> (\<forall>n. 0 < n \<longrightarrow> sint idealMin \<le> sint (mins n))"
      using run by (simp add: mins_def)
    then show ?thesis by blast
  next
    case False
    then have ge: "sint idealMin \<le> sint red" by simp
    have c1: "1 \<le> sint currentMin"
    proof (rule ccontr)
      assume "\<not> 1 \<le> sint currentMin"
      then have "sint currentMin \<le> 0" by simp
      from reduced_nonpos(1)[OF f(1,2,3) f1 this, of arch] have "sint red \<le> 0"
        by (simp add: red_def)
      with ge ideal show False by simp
    qed
    then have c0: "0 \<le> sint currentMin" by simp
    have lt: "sint red < sint currentMin"
      unfolding red_def by (rule reduced_nonneg(3)[OF f(1,2,3) f1 c0 f(4) c1])
    have red1: "1 \<le> sint red" using ge ideal by simp
    have "nat (sint red) < nat (sint currentMin)" using lt red1 by simp
    from less[OF this] obtain k' mins' where
      k': "1 \<le> k'" "int k' \<le> max 1 (sint red)"
      and m0: "mins' 0 = red"
      and run': "\<And>n. planPasses arch factor now max' n (red, tortoise) =
              Returns (Inr (mins' n, tortoise\<lparr>Status_TortoisePhase :=
                 (if n < k' then TortoisePhaseBackToNormal else TortoisePhaseWorking)\<rparr>))"
      and dec': "\<And>n. Suc n < k' \<Longrightarrow> sint (mins' (Suc n)) < sint (mins' n)"
      and fin': "\<And>n. k' \<le> n \<Longrightarrow> mins' n = idealMin"
      and low': "\<And>n. 0 < n \<Longrightarrow> sint idealMin \<le> sint (mins' n)"
      by blast
    define mins where "mins = (\<lambda>n::nat. case n of 0 \<Rightarrow> currentMin | Suc m \<Rightarrow> mins' m)"
    have b: "int (Suc k') \<le> max 1 (sint currentMin)" using k'(2) red1 lt by simp
    have run: "planPasses arch factor now max' n (currentMin, tortoise) =
              Returns (Inr (mins n, tortoise\<lparr>Status_TortoisePhase :=
                 (if n < Suc k' then TortoisePhaseBackToNormal else TortoisePhaseWorking)\<rparr>))" for n
    proof (cases n)
      case 0
      then show ?thesis by (simp add: mins_def same)
    next
      case (Suc m)
      then show ?thesis using step[of m] False run'[of m] by (simp add: mins_def)
    qed
    have dec: "sint (mins (Suc n)) < sint (mins n)" if "Suc n < Suc k'" for n
    proof (cases n)
      case 0
      then show ?thesis using lt m0 by (simp add: mins_def)
    next
      case (Suc m)
      then show ?thesis using dec'[of m] that by (simp add: mins_def)
    qed
    have fin: "mins n = idealMin" if "Suc k' \<le> n" for n
      using that fin'[of "n - 1"] by (cases n) (simp_all add: mins_def)
    have low: "sint idealMin \<le> sint (mins n)" if "0 < n" for n
    proof (cases n)
      case 0
      with that show ?thesis by simp
    next
      case (Suc m)
      show ?thesis
      proof (cases m)
        case 0
        then show ?thesis using Suc ge m0 by (simp add: mins_def)
      next
        case (Suc j)
        then show ?thesis using \<open>n = Suc m\<close> low'[of m] by (simp add: mins_def)
      qed
    qed
    have "1 \<le> Suc k' \<and> int (Suc k') \<le> max 1 (sint currentMin)
     \<and> mins 0 = currentMin
     \<and> (\<forall>n. planPasses arch factor now max' n (currentMin, tortoise) =
              Returns (Inr (mins n, tortoise\<lparr>Status_TortoisePhase :=
                 (if n < Suc k' then TortoisePhaseBackToNormal else TortoisePhaseWorking)\<rparr>)))
     \<and> (\<forall>n. Suc n < Suc k' \<longrightarrow> sint (mins (Suc n)) \<le> sint (mins n))
     \<and> (\<forall>n. Suc n < Suc k' \<longrightarrow> sint (mins (Suc n)) < sint (mins n))
     \<and> (\<forall>n. Suc k' \<le> n \<longrightarrow> mins n = idealMin)
     \<and> (\<forall>n. 0 < n \<longrightarrow> sint idealMin \<le> sint (mins n))"
      using b run dec fin low by (auto simp: mins_def less_imp_le)
    then show ?thesis by blast
  qed
qed

theorem backToNormal_converges_witness:
  "(\<exists>k. 1 \<le> k \<and> k \<le> 10 \<and>
      planPasses sampleArch float64_0_5 sampleNow 12 k
        (10, sampleTortoise TortoisePhaseBackToNormal
               [\<lparr>From = 0, To = 24, WeekDay = Monday, Value = 3\<rparr>])
      = Returns (Inr (3, sampleTortoise TortoisePhaseWorking
               [\<lparr>From = 0, To = 24, WeekDay = Monday, Value = 3\<rparr>])))
   \<and> planPasses sampleArch float64_0_5 sampleNow 12 1
        (10, sampleTortoise TortoisePhaseBackToNormal
               [\<lparr>From = 0, To = 24, WeekDay = Monday, Value = 3\<rparr>])
      = Returns (Inr (5, sampleTortoise TortoisePhaseBackToNormal
               [\<lparr>From = 0, To = 24, WeekDay = Monday, Value = 3\<rparr>]))
   \<and> planPasses sampleArch float64_0_5 sampleNow 12 2
        (10, sampleTortoise TortoisePhaseBackToNormal
               [\<lparr>From = 0, To = 24, WeekDay = Monday, Value = 3\<rparr>])
      = Returns (Inr (3, sampleTortoise TortoisePhaseWorking
               [\<lparr>From = 0, To = 24, WeekDay = Monday, Value = 3\<rparr>]))"
proof -
  let ?mins = "[\<lparr>From = 0, To = 24, WeekDay = Monday, Value = 3\<rparr>]"
  let ?t = "sampleTortoise TortoisePhaseBackToNormal ?mins"
  have f: "is_finite float64_0_5" "valid_float64 float64_0_5"
      "0 \<le> float64_value float64_0_5" "float64_value float64_0_5 < 1"
    by (simp_all add: float64_0_5_def)
  have minl: "getReplicasRecommendation (Horizontal_MinReplicas ?t) sampleNow = Inr 3"
    by (simp add: sample_tortoise_simps sampleNow_def)
  have ideal: "1 \<le> sint (3 :: int32)" by simp
  from backToNormal_converges[OF f sample_tortoise_simps(1) minl ideal,
      of 10 sampleArch 12]
  obtain k mins where k: "1 \<le> k" "int k \<le> max 1 (sint (10 :: int32))"
    and run: "\<And>n. planPasses sampleArch float64_0_5 sampleNow 12 n (10, ?t) =
              Returns (Inr (mins n, ?t\<lparr>Status_TortoisePhase :=
                 (if n < k then TortoisePhaseBackToNormal else TortoisePhaseWorking)\<rparr>))"
    and fin: "\<And>n. k \<le> n \<Longrightarrow> mins n = 3"
    by blast
  have "k \<le> 10" using k(2) by simp
  moreover have "planPasses sampleArch float64_0_5 sampleNow 12 k (10, ?t)
      = Returns (Inr (3, sampleTortoise TortoisePhaseWorking ?mins))"
    using run[of k] fin[of k] by (simp add: sample_tortoise_phase)
  moreover have "planPasses sampleArch float64_0_5 sampleNow 12 1 (10, ?t)
      = Returns (Inr (5, ?t))"
    by (simp add: switchTortoisePhase_def sample_tortoise_simps sampleNow_def
        reduced_10_half Let_def)
  moreover have "planPasses sampleArch float64_0_5 sampleNow 12 2 (10, ?t)
      = Returns (Inr (3, sampleTortoise TortoisePhaseWorking ?mins))"
    by (simp add: switchTortoisePhase_def sample_tortoise_simps sampleNow_def
        reduced_10_half reduced_5_half sample_tortoise_phase numeral_2_eq_2 Let_def)
  ultimately show ?thesis using k(1) by blast
qed

text \<open>
  C5. In phase Emergency, when the HPA is fetched, the rewrites succeed and the
  maxReplicas lookup succeeds, the HPA handed to \<open>Update\<close> and returned has minReplicas
  and maxReplicas both equal to the looked-up maximum, whatever minReplicas the fetched
  HPA had, and the tortoise is returned with its phase unchanged.
\<close>

theorem emergency_pins_min_to_max:
  assumes "Status_TortoisePhase tortoise = TortoisePhaseEmergency"
    and "Spec_TargetRefs_HorizontalPodAutoscalerName tortoise = Some name"
    and "Get (client_c cl) w (Namespace tortoise, name) = Inr hpa"
    and "updateAllTargets ann hpa (Horizontal_TargetUtilizations tortoise) = Returns (hpa1, None)"
    and "getReplicasRecommendation (Horizontal_MaxReplicas tortoise) now = Inr maxRec"
  shows "\<exists>hpa'. UpdateHPAFromTortoiseRecommendation ann arch cl w tortoise now =
           (Returns (Some hpa', tortoise, fst (Update (client_c cl) w hpa')),
            snd (Update (client_c cl) w hpa'),
            [GetCall (Namespace tortoise, name), UpdateCall hpa'])
         \<and> hpa' = hpa1\<lparr>Spec_MaxReplicas := maxRec, Spec_MinReplicas := Some maxRec\<rparr>
         \<and> Spec_MinReplicas hpa' = Some maxRec \<and> Spec_MaxReplicas hpa' = maxRec"
  using assms
  by (simp add: UpdateHPAFromTortoiseRecommendation_def switch_emergency Let_def case_prod_beta)

theorem emergency_pins_min_to_max_witness:
  "fst (UpdateHPAFromTortoiseRecommendation sampleAnnotation sampleArch
          (sampleClient float64_0_5) (sampleWorld 3)
          (sampleTortoise TortoisePhaseEmergency []) sampleNow)
     = Returns (Some ((sampleHPA 12)\<lparr>Spec_MaxReplicas := 12, Spec_Metrics :=
        [utilizationMetric ''api'' ''cpu'' 60,
         externalMetricSpec ''datadogmetric@default:app-cpu-api''
           \<lparr>Amount = 60, Scale = 0, QuantityFormat = DecimalSI\<rparr>,
         utilizationMetric ''worker'' ''cpu'' 50,
         externalMetricSpec ''datadogmetric@default:app-memory-api'' MustParse_90]\<rparr>),
        sampleTortoise TortoisePhaseEmergency [], None)"
proof -
  let ?t = "sampleTortoise TortoisePhaseEmergency []"
  have rws: "updateAllTargets sampleAnnotation (sampleHPA 3) (Horizontal_TargetUtilizations ?t)
      = Returns ((sampleHPA 3)\<lparr>Spec_Metrics :=
        [utilizationMetric ''api'' ''cpu'' 60,
         externalMetricSpec ''datadogmetric@default:app-cpu-api''
           \<lparr>Amount = 60, Scale = 0, QuantityFormat = DecimalSI\<rparr>,
         utilizationMetric ''worker'' ''cpu'' 50,
         externalMetricSpec ''datadogmetric@default:app-memory-api'' MustParse_90]\<rparr>, None)"
    by (simp only: sample_tortoise_simps sample_rewrites)
  have get: "Get (client_c (sampleClient float64_0_5)) (sampleWorld 3) (Namespace ?t, ''hpa'')
      = Inr (sampleHPA 3)"
    by (simp only: sample_tortoise_simps sample_get)
  from emergency_pins_min_to_max[where arch = sampleArch,
      OF sample_tortoise_simps(1) sample_tortoise_simps(2) get rws sample_tortoise_simps(6)]
  show ?thesis
    by (auto simp: sampleHPA_def sampleClient_def memoryClient_def sampleWorld_def)
qed

text \<open>
  C10. In phase Emergency the minReplicas recommendations are never consulted: when the
  HPA is fetched, the rewrites succeed, the maxReplicas lookup succeeds and the client's
  \<open>Update\<close> succeeds, the call succeeds although no minReplicas slot matches,
  while with the same inputs in any other phase (Working and BackToNormal among them) it
  fails with the error of the minReplicas lookup and makes no \<open>Update\<close>.
\<close>

theorem emergency_skips_min_lookup:
  assumes name: "Spec_TargetRefs_HorizontalPodAutoscalerName tortoise = Some name"
    and get: "Get (client_c cl) w (Namespace tortoise, name) = Inr hpa"
    and rw: "updateAllTargets ann hpa (Horizontal_TargetUtilizations tortoise) = Returns (hpa1, None)"
    and maxl: "getReplicasRecommendation (Horizontal_MaxReplicas tortoise) now = Inr maxRec"
    and minl: "getReplicasRecommendation (Horizontal_MinReplicas tortoise) now = Inl e"
    and upd: "Update (client_c cl) w
                (hpa1\<lparr>Spec_MaxReplicas := maxRec, Spec_MinReplicas := Some maxRec\<rparr>) = (None, w')"
  shows "UpdateHPAFromTortoiseRecommendation ann arch cl w
           (tortoise\<lparr>Status_TortoisePhase := TortoisePhaseEmergency\<rparr>) now =
           (Returns (Some (hpa1\<lparr>Spec_MaxReplicas := maxRec, Spec_MinReplicas := Some maxRec\<rparr>),
                     tortoise\<lparr>Status_TortoisePhase := TortoisePhaseEmergency\<rparr>, None),
            w',
            [GetCall (Namespace tortoise, name),
             UpdateCall (hpa1\<lparr>Spec_MaxReplicas := maxRec, Spec_MinReplicas := Some maxRec\<rparr>)])
       \<and> (\<forall>phase. phase \<noteq> TortoisePhaseEmergency \<longrightarrow>
            UpdateHPAFromTortoiseRecommendation ann arch cl w
              (tortoise\<lparr>Status_TortoisePhase := phase\<rparr>) now =
              (Returns (None, tortoise\<lparr>Status_TortoisePhase := phase\<rparr>,
                        Some (Wrap ''get minReplicas recommendation'' e)),
               w, [GetCall (Namespace tortoise, name)]))"
  using assms
  by (simp add: UpdateHPAFromTortoiseRecommendation_def switch_emergency
      switch_min_lookup_fails Let_def)

theorem emergency_skips_min_lookup_witness:
  "UpdateHPAFromTortoiseRecommendation sampleAnnotation sampleArch
          (sampleClient float64_0_5) (sampleWorld 3)
          (sampleTortoise TortoisePhaseEmergency []) sampleNow
     = (Returns (Some ((sampleHPA 12)\<lparr>Spec_MaxReplicas := 12, Spec_Metrics :=
        [utilizationMetric ''api'' ''cpu'' 60,
         externalMetricSpec ''datadogmetric@default:app-cpu-api''
           \<lparr>Amount = 60, Scale = 0, QuantityFormat = DecimalSI\<rparr>,
         utilizationMetric ''worker'' ''cpu'' 50,
         externalMetricSpec ''datadogmetric@default:app-memory-api'' MustParse_90]\<rparr>),
        sampleTortoise TortoisePhaseEmergency [], None),
        [(''default'', ''hpa'') \<mapsto> (sampleHPA 12)\<lparr>Spec_MaxReplicas := 12, Spec_Metrics :=
        [utilizationMetric ''api'' ''cpu'' 60,
         externalMetricSpec ''datadogmetric@default:app-cpu-api''
           \<lparr>Amount = 60, Scale = 0, QuantityFormat = DecimalSI\<rparr>,
         utilizationMetric ''worker'' ''cpu'' 50,
         externalMetricSpec ''datadogmetric@default:app-memory-api'' MustParse_90]\<rparr>],
        [GetCall (''default'', ''hpa''),
         UpdateCall ((sampleHPA 12)\<lparr>Spec_MaxReplicas := 12, Spec_Metrics :=
        [utilizationMetric ''api'' ''cpu'' 60,
         externalMetricSpec ''datadogmetric@default:app-cpu-api''
           \<lparr>Amount = 60, Scale = 0, QuantityFormat = DecimalSI\<rparr>,
         utilizationMetric ''worker'' ''cpu'' 50,
         externalMetricSpec ''datadogmetric@default:app-memory-api'' MustParse_90]\<rparr>)])
   \<and> UpdateHPAFromTortoiseRecommendation sampleAnnotation sampleArch
          (sampleClient float64_0_5) (sampleWorld 3)
          (sampleTortoise TortoisePhaseWorking []) sampleNow
     = (Returns (None, sampleTortoise TortoisePhaseWorking [],
          Some (Wrap ''get minReplicas recommendation'' (Msg ''no recommendation slot''))),
        sampleWorld 3, [GetCall (''default'', ''hpa'')])
   \<and> UpdateHPAFromTortoiseRecommendation sampleAnnotation sampleArch
          (sampleClient float64_0_5) (sampleWorld 3)
          (sampleTortoise TortoisePhaseBackToNormal []) sampleNow
     = (Returns (None, sampleTortoise TortoisePhaseBackToNormal [],
          Some (Wrap ''get minReplicas recommendation'' (Msg ''no recommendation slot''))),
        sampleWorld 3, [GetCall (''default'', ''hpa'')])"
proof -
  let ?t = "sampleTortoise TortoisePhaseEmergency []"
  let ?h = "(sampleHPA 3)\<lparr>Spec_Metrics :=
        [utilizationMetric ''api'' ''cpu'' 60,
         externalMetricSpec ''datadogmetric@default:app-cpu-api''
           \<lparr>Amount = 60, Scale = 0, QuantityFormat = DecimalSI\<rparr>,
         utilizationMetric ''worker'' ''cpu'' 50,
         externalMetricSpec ''datadogmetric@default:app-memory-api'' MustParse_90]\<rparr>"
  have rws: "updateAllTargets sampleAnnotation (sampleHPA 3) (Horizontal_TargetUtilizations ?t)
      = Returns (?h, None)"
    by (simp only: sample_tortoise_simps sample_rewrites)
  have get: "Get (client_c (sampleClient float64_0_5)) (sampleWorld 3) (Namespace ?t, ''hpa'')
      = Inr (sampleHPA 3)"
    by (simp only: sample_tortoise_simps sample_get)
  have minl: "getReplicasRecommendation (Horizontal_MinReplicas ?t) sampleNow
      = Inl (Msg ''no recommendation slot'')"
    by (simp add: sample_tortoise_simps)
  have upd: "Update (client_c (sampleClient float64_0_5)) (sampleWorld 3)
      (?h\<lparr>Spec_MaxReplicas := 12, Spec_MinReplicas := Some 12\<rparr>)
      = (None, [(''default'', ''hpa'') \<mapsto> ?h\<lparr>Spec_MaxReplicas := 12, Spec_MinReplicas := Some 12\<rparr>])"
    by (rule sample_update) (simp_all add: sampleHPA_def)
  from emergency_skips_min_lookup[where arch = sampleArch,
      OF sample_tortoise_simps(2) get rws sample_tortoise_simps(6) minl upd]
  show ?thesis
    by (auto simp: sample_tortoise_phase sample_tortoise_simps sampleHPA_def)
qed

text \<open>
  C4. When no slot matches \<open>now\<close> in the maxReplicas recommendations, or the phase is
  not Emergency and no slot matches in the minReplicas recommendations, the call never
  invokes \<open>Update\<close>, leaves the cluster state as it was, and returns no HPA and no
  success; when the HPA was fetched and the rewrites succeeded, so that the lookup is
  reached, it returns the error of the failing lookup.
\<close>

theorem lookup_failure_aborts_without_update:
  assumes fail: "find (slot_matches now) (Horizontal_MaxReplicas tortoise) = None \<or>
      (Status_TortoisePhase tortoise \<noteq> TortoisePhaseEmergency \<and>
       find (slot_matches now) (Horizontal_MinReplicas tortoise) = None)"
  shows "fst (snd (UpdateHPAFromTortoiseRecommendation ann arch cl w tortoise now)) = w
    \<and> (\<forall>h. UpdateCall h \<notin> set (snd (snd
          (UpdateHPAFromTortoiseRecommendation ann arch cl w tortoise now))))
    \<and> (\<forall>h t err. fst (UpdateHPAFromTortoiseRecommendation ann arch cl w tortoise now)
          = Returns (h, t, err) \<longrightarrow> h = None \<and> err \<noteq> None)
    \<and> (\<forall>name hpa hpa1.
          Spec_TargetRefs_HorizontalPodAutoscalerName tortoise = Some name \<and>
          Get (client_c cl) w (Namespace tortoise, name) = Inr hpa \<and>
          updateAllTargets ann hpa (Horizontal_TargetUtilizations tortoise) = Returns (hpa1, None)
          \<longrightarrow> (\<exists>err. UpdateHPAFromTortoiseRecommendation ann arch cl w tortoise now =
                  (Returns (None, tortoise, Some err), w, [GetCall (Namespace tortoise, name)])
                \<and> (err = Wrap ''get maxReplicas recommendation'' (Msg ''no recommendation slot'')
                   \<or> err = Wrap ''get minReplicas recommendation''
                             (Msg ''no recommendation slot''))))"
proof (intro conjI allI impI)
  show "fst (snd (UpdateHPAFromTortoiseRecommendation ann arch cl w tortoise now)) = w"
    using update_only_after_lookups[of _ ann arch cl w tortoise now] fail by blast
next
  fix h
  show "UpdateCall h \<notin> set (snd (snd
          (UpdateHPAFromTortoiseRecommendation ann arch cl w tortoise now)))"
    using update_only_after_lookups[of h ann arch cl w tortoise now] fail by blast
next
  fix h t err
  assume r: "fst (UpdateHPAFromTortoiseRecommendation ann arch cl w tortoise now)
          = Returns (h, t, err)"
  show "h = None"
  proof (cases h)
    case (Some h')
    with r update_only_after_lookups[of _ ann arch cl w tortoise now h' t err] fail
    show ?thesis by blast
  qed simp
  show "err \<noteq> None"
  proof
    assume "err = None"
    with r update_only_after_lookups[of _ ann arch cl w tortoise now _ t _ h] fail
    show False by blast
  qed
next
  fix name hpa hpa1
  assume a: "Spec_TargetRefs_HorizontalPodAutoscalerName tortoise = Some name \<and>
          Get (client_c cl) w (Namespace tortoise, name) = Inr hpa \<and>
          updateAllTargets ann hpa (Horizontal_TargetUtilizations tortoise) = Returns (hpa1, None)"
  show "\<exists>err. UpdateHPAFromTortoiseRecommendation ann arch cl w tortoise now =
                  (Returns (None, tortoise, Some err), w, [GetCall (Namespace tortoise, name)])
                \<and> (err = Wrap ''get maxReplicas recommendation'' (Msg ''no recommendation slot'')
                   \<or> err = Wrap ''get minReplicas recommendation''
                             (Msg ''no recommendation slot''))"
  proof (cases "getReplicasRecommendation (Horizontal_MaxReplicas tortoise) now")
    case (Inl e1)
    then have "e1 = Msg ''no recommendation slot''" by (simp add: lookup_fails_iff)
    with a Inl show ?thesis by (simp add: UpdateHPAFromTortoiseRecommendation_def)
  next
    case (Inr maxRec)
    then have "find (slot_matches now) (Horizontal_MaxReplicas tortoise) \<noteq> None"
      by (auto simp: getReplicasRecommendation_find split: option.splits)
    with fail have p: "Status_TortoisePhase tortoise \<noteq> TortoisePhaseEmergency"
      and m: "find (slot_matches now) (Horizontal_MinReplicas tortoise) = None" by auto
    from m have "getReplicasRecommendation (Horizontal_MinReplicas tortoise) now
        = Inl (Msg ''no recommendation slot'')"
      by (simp add: getReplicasRecommendation_find)
    from switch_min_lookup_fails[OF p this] a Inr show ?thesis
      by (simp add: UpdateHPAFromTortoiseRecommendation_def)
  qed
qed

theorem lookup_failure_aborts_without_update_witness:
  "UpdateHPAFromTortoiseRecommendation sampleAnnotation sampleArch
          (sampleClient float64_0_5) (sampleWorld 3)
          (sampleTortoise TortoisePhaseBackToNormal
             [\<lparr>From = 0, To = 24, WeekDay = Monday, Value = 6\<rparr>])
          (sampleNow\<lparr>Weekday := Tuesday\<rparr>)
     = (Returns (None, sampleTortoise TortoisePhaseBackToNormal
                         [\<lparr>From = 0, To = 24, WeekDay = Monday, Value = 6\<rparr>],
          Some (Wrap ''get maxReplicas recommendation'' (Msg ''no recommendation slot''))),
        sampleWorld 3, [GetCall (''default'', ''hpa'')])"
proof -
  let ?t = "sampleTortoise TortoisePhaseBackToNormal
             [\<lparr>From = 0, To = 24, WeekDay = Monday, Value = 6\<rparr>]"
  let ?now = "sampleNow\<lparr>Weekday := Tuesday\<rparr>"
  have fail: "find (slot_matches ?now) (Horizontal_MaxReplicas ?t) = None \<or>
      (Status_TortoisePhase ?t \<noteq> TortoisePhaseEmergency \<and>
       find (slot_matches ?now) (Horizontal_MinReplicas ?t) = None)"
    by (simp add: sampleTortoise_def sampleNow_def slot_matches_def)
  have rws: "updateAllTargets sampleAnnotation (sampleHPA 3) (Horizontal_TargetUtilizations ?t)
      = Returns ((sampleHPA 3)\<lparr>Spec_Metrics :=
        [utilizationMetric ''api'' ''cpu'' 60,
         externalMetricSpec ''datadogmetric@default:app-cpu-api''
           \<lparr>Amount = 60, Scale = 0, QuantityFormat = DecimalSI\<rparr>,
         utilizationMetric ''worker'' ''cpu'' 50,
         externalMetricSpec ''datadogmetric@default:app-memory-api'' MustParse_90]\<rparr>, None)"
    by (simp only: sample_tortoise_simps sample_rewrites)
  have get: "Get (client_c (sampleClient float64_0_5)) (sampleWorld 3) (Namespace ?t, ''hpa'')
      = Inr (sampleHPA 3)"
    by (simp only: sample_tortoise_simps sample_get)
  from lookup_failure_aborts_without_update[where ann = sampleAnnotation and arch = sampleArch
      and cl = "sampleClient float64_0_5" and w = "sampleWorld 3", OF fail]
    sample_tortoise_simps(2)[of TortoisePhaseBackToNormal
      "[\<lparr>From = 0, To = 24, WeekDay = Monday, Value = 6\<rparr>]"] get rws
  have "\<exists>err. UpdateHPAFromTortoiseRecommendation sampleAnnotation sampleArch
          (sampleClient float64_0_5) (sampleWorld 3) ?t ?now =
        (Returns (None, ?t, Some err), sampleWorld 3, [GetCall (Namespace ?t, ''hpa'')])
      \<and> (err = Wrap ''get maxReplicas recommendation'' (Msg ''no recommendation slot'')
         \<or> err = Wrap ''get minReplicas recommendation'' (Msg ''no recommendation slot''))"
    by blast
  moreover have "getReplicasRecommendation (Horizontal_MaxReplicas ?t) ?now
      = Inl (Msg ''no recommendation slot'')"
    by (simp add: sampleTortoise_def sampleNow_def)
  ultimately show ?thesis
    using sample_tortoise_simps(2)[of TortoisePhaseBackToNormal
      "[\<lparr>From = 0, To = 24, WeekDay = Monday, Value = 6\<rparr>]"] get rws
    by (auto simp: UpdateHPAFromTortoiseRecommendation_def sample_tortoise_simps)
qed

text \<open>
  C6. For every list of slots and every \<open>now\<close>, the lookup returns the value of the
  first slot in list order whose weekday is that of \<open>now\<close> and whose hours contain the
  hour of \<open>now\<close> (from inclusive, to exclusive), and the error "no recommendation slot"
  when there is none. With the slots Monday 0 to 12 (value 3) and Monday 12 to 24
  (value 5), Monday 14:00 gives 5 and Tuesday 14:00 gives the error.
\<close>

theorem lookup_first_match:
  "getReplicasRecommendation slots now =
     (case find (slot_matches now) slots of
        None \<Rightarrow> Inl (Msg ''no recommendation slot'')
      | Some slot \<Rightarrow> Inr (Value slot))
   \<and> getReplicasRecommendation
        [\<lparr>From = 0, To = 12, WeekDay = Monday, Value = 3\<rparr>,
         \<lparr>From = 12, To = 24, WeekDay = Monday, Value = 5\<rparr>]
        \<lparr>Hour = 14, Weekday = Monday\<rparr> = Inr 5
   \<and> getReplicasRecommendation
        [\<lparr>From = 0, To = 12, WeekDay = Monday, Value = 3\<rparr>,
         \<lparr>From = 12, To = 24, WeekDay = Monday, Value = 5\<rparr>]
        \<lparr>Hour = 14, Weekday = Tuesday\<rparr> = Inl (Msg ''no recommendation slot'')"
  by (simp add: getReplicasRecommendation_find slot_matches_def)

text \<open>
  C3, as amended. Computing the external metric name fails exactly when the requested
  resource kind is neither cpu nor memory, whether or not the naming-prefix annotation is
  present, and the rewrite returns that error, and no other, to its caller. When the
  annotation of a cpu or memory request is absent, the prefix is the empty string, the
  name is the container name and there is no error.
\<close>

theorem naming_error_only_for_unsupported_kind:
  "((\<exists>e. externalMetricNameFromAnnotation ann hpa containerName k = Inl e) \<longleftrightarrow>
      k \<noteq> ResourceCPU \<and> k \<noteq> ResourceMemory)
   \<and> (k \<noteq> ResourceCPU \<and> k \<noteq> ResourceMemory \<longrightarrow>
        externalMetricNameFromAnnotation ann hpa containerName k
          = Inl (NonSupportedResourceType k)
        \<and> (\<exists>hpa'. updateHPATargetValue ann hpa containerName k targetValue
              = Returns (hpa', Some (NonSupportedResourceType k))))
   \<and> (\<forall>hpa' e. updateHPATargetValue ann hpa containerName k targetValue
          = Returns (hpa', Some e) \<longrightarrow>
        externalMetricNameFromAnnotation ann hpa containerName k = Inl e)
   \<and> (ObjectMeta_Annotations hpa (HPAContainerBasedCPUExternalMetricNamePrefixAnnotation ann)
         = None \<longrightarrow>
        externalMetricNameFromAnnotation ann hpa containerName ResourceCPU = Inr containerName)
   \<and> (ObjectMeta_Annotations hpa (HPAContainerBasedMemoryExternalMetricNamePrefixAnnotation ann)
         = None \<longrightarrow>
        externalMetricNameFromAnnotation ann hpa containerName ResourceMemory
          = Inr containerName)"
proof (intro conjI allI impI)
  show "(\<exists>e. externalMetricNameFromAnnotation ann hpa containerName k = Inl e) \<longleftrightarrow>
      k \<noteq> ResourceCPU \<and> k \<noteq> ResourceMemory"
    by (rule name_error_iff)
next
  assume "k \<noteq> ResourceCPU \<and> k \<noteq> ResourceMemory"
  then show "externalMetricNameFromAnnotation ann hpa containerName k
          = Inl (NonSupportedResourceType k)"
    by (simp add: externalMetricNameFromAnnotation_def)
next
  assume "k \<noteq> ResourceCPU \<and> k \<noteq> ResourceMemory"
  then show "\<exists>hpa'. updateHPATargetValue ann hpa containerName k targetValue
              = Returns (hpa', Some (NonSupportedResourceType k))"
    by (simp add: rewrite_unsupported)
next
  fix hpa' e
  assume "updateHPATargetValue ann hpa containerName k targetValue = Returns (hpa', Some e)"
  then show "externalMetricNameFromAnnotation ann hpa containerName k = Inl e"
    by (rule rewrite_error_is_name_error)
next
  assume "ObjectMeta_Annotations hpa (HPAContainerBasedCPUExternalMetricNamePrefixAnnotation ann)
         = None"
  then show "externalMetricNameFromAnnotation ann hpa containerName ResourceCPU
      = Inr containerName"
    by (simp add: externalMetricNameFromAnnotation_def GetAnnotation_def)
next
  assume "ObjectMeta_Annotations hpa
      (HPAContainerBasedMemoryExternalMetricNamePrefixAnnotation ann) = None"
  then show "externalMetricNameFromAnnotation ann hpa containerName ResourceMemory
      = Inr containerName"
    by (simp add: externalMetricNameFromAnnotation_def GetAnnotation_def
        ResourceCPU_def ResourceMemory_def)
qed

theorem naming_error_only_for_unsupported_kind_witness:
  "externalMetricNameFromAnnotation sampleAnnotation (sampleHPA 3) ''api'' ''ephemeral-storage''
     = Inl (NonSupportedResourceType ''ephemeral-storage'')
   \<and> updateHPATargetValue sampleAnnotation (sampleHPA 3) ''api'' ''ephemeral-storage'' 70
     = Returns (sampleHPA 3, Some (NonSupportedResourceType ''ephemeral-storage''))
   \<and> externalMetricNameFromAnnotation sampleAnnotation
        ((sampleHPA 3)\<lparr>ObjectMeta_Annotations := Map.empty\<rparr>) ''api'' ResourceMemory
     = Inr ''api''"
  using naming_error_only_for_unsupported_kind[of sampleAnnotation "sampleHPA 3" "''api''"
          "''ephemeral-storage''" 70]
    naming_error_only_for_unsupported_kind[of sampleAnnotation
          "(sampleHPA 3)\<lparr>ObjectMeta_Annotations := Map.empty\<rparr>" "''api''" "''cpu''" 70]
  by (auto simp: ResourceCPU_def ResourceMemory_def rewrite_unsupported sampleHPA_def
      setAverageUtilization_def utilizationMetric_def externalMetricSpec_def)

text \<open>
  C3 as stated fails: on an HPA without annotations the name for (api, cpu) is computed
  and the rewrite returns no error.
\<close>

theorem absent_prefix_annotation_is_no_error:
  "ObjectMeta_Annotations ((sampleHPA 3)\<lparr>ObjectMeta_Annotations := Map.empty\<rparr>)
     (HPAContainerBasedCPUExternalMetricNamePrefixAnnotation sampleAnnotation) = None
   \<and> externalMetricNameFromAnnotation sampleAnnotation
        ((sampleHPA 3)\<lparr>ObjectMeta_Annotations := Map.empty\<rparr>) ''api'' ResourceCPU
      = Inr ''api''
   \<and> updateHPATargetValue sampleAnnotation
        ((sampleHPA 3)\<lparr>ObjectMeta_Annotations := Map.empty\<rparr>) ''api'' ResourceCPU 70
      = Returns ((sampleHPA 3)\<lparr>ObjectMeta_Annotations := Map.empty,
          Spec_Metrics :=
            [utilizationMetric ''api'' ''cpu'' 70,
             externalMetricSpec ''datadogmetric@default:app-cpu-api'' MustParse_50,
             utilizationMetric ''worker'' ''cpu'' 50,
             externalMetricSpec ''datadogmetric@default:app-memory-api'' MustParse_90]\<rparr>, None)"
  by (simp add: updateHPATargetValue_def sampleHPA_def sampleAnnotation_def
      utilizationMetric_def externalMetricSpec_def setAverageUtilization_def
      setExternalValue_def externalMetricNameFromAnnotation_def GetAnnotation_def
      ResourceCPU_def ResourceMemory_def)



text \<open>
  C8. A rewrite for (container, resource kind) leaves every metric that is not a
  MetricSpec for that pair as it was, keeps the number and order of the metrics and
  changes no other field of the HPA. On an HPA whose two naming prefixes differ, the
  rewrite for (api, cpu) leaves every MetricSpec for (worker, cpu) and every MetricSpec
  for (api, memory) unchanged.
\<close>

theorem rewrite_leaves_other_metrics:
  "(\<forall>containerName k targetValue hpa' err i.
      updateHPATargetValue ann hpa containerName k targetValue = Returns (hpa', err) \<and>
      i < length (Spec_Metrics hpa) \<and>
      \<not> metricSpecFor ann hpa containerName k (Spec_Metrics hpa ! i)
      \<longrightarrow> length (Spec_Metrics hpa') = length (Spec_Metrics hpa)
          \<and> Spec_Metrics hpa' ! i = Spec_Metrics hpa ! i
          \<and> hpa' = hpa\<lparr>Spec_Metrics := Spec_Metrics hpa'\<rparr>)
   \<and> (GetAnnotation hpa (HPAContainerBasedCPUExternalMetricNamePrefixAnnotation ann) \<noteq>
       GetAnnotation hpa (HPAContainerBasedMemoryExternalMetricNamePrefixAnnotation ann)
      \<longrightarrow> (\<forall>targetValue hpa' err i.
            updateHPATargetValue ann hpa ''api'' ResourceCPU targetValue = Returns (hpa', err) \<and>
            i < length (Spec_Metrics hpa) \<and>
            (metricSpecFor ann hpa ''worker'' ResourceCPU (Spec_Metrics hpa ! i) \<or>
             metricSpecFor ann hpa ''api'' ResourceMemory (Spec_Metrics hpa ! i))
            \<longrightarrow> Spec_Metrics hpa' ! i = Spec_Metrics hpa ! i))"
proof (intro conjI allI impI)
  fix containerName k targetValue hpa' err i
  assume a: "updateHPATargetValue ann hpa containerName k targetValue = Returns (hpa', err) \<and>
      i < length (Spec_Metrics hpa) \<and>
      \<not> metricSpecFor ann hpa containerName k (Spec_Metrics hpa ! i)"
  then show "length (Spec_Metrics hpa') = length (Spec_Metrics hpa)"
    using rewrite_frame(1) by blast
  from a show "Spec_Metrics hpa' ! i = Spec_Metrics hpa ! i"
    using rewrite_frame(2) by blast
  from a show "hpa' = hpa\<lparr>Spec_Metrics := Spec_Metrics hpa'\<rparr>"
    using updateHPATargetValue_fields by blast
next
  fix targetValue hpa' err i
  assume d: "GetAnnotation hpa (HPAContainerBasedCPUExternalMetricNamePrefixAnnotation ann) \<noteq>
       GetAnnotation hpa (HPAContainerBasedMemoryExternalMetricNamePrefixAnnotation ann)"
    and a: "updateHPATargetValue ann hpa ''api'' ResourceCPU targetValue = Returns (hpa', err) \<and>
            i < length (Spec_Metrics hpa) \<and>
            (metricSpecFor ann hpa ''worker'' ResourceCPU (Spec_Metrics hpa ! i) \<or>
             metricSpecFor ann hpa ''api'' ResourceMemory (Spec_Metrics hpa ! i))"
  have "\<not> metricSpecFor ann hpa ''api'' ResourceCPU (Spec_Metrics hpa ! i)"
    using a metricSpecFor_other_container[of "''worker''" "''api''"]
      metricSpecFor_memory_not_cpu[OF d] by auto
  with a show "Spec_Metrics hpa' ! i = Spec_Metrics hpa ! i"
    using rewrite_frame(2) by blast
qed

theorem rewrite_leaves_other_metrics_witness:
  "\<exists>hpa'. updateHPATargetValue sampleAnnotation (sampleHPA 3) ''api'' ResourceCPU 60
            = Returns (hpa', None)
     \<and> Spec_Metrics hpa' ! 0 = utilizationMetric ''api'' ''cpu'' 60
     \<and> Spec_Metrics hpa' ! 2 = utilizationMetric ''worker'' ''cpu'' 50
     \<and> Spec_Metrics hpa' ! 3 =
          externalMetricSpec ''datadogmetric@default:app-memory-api'' MustParse_90"
proof -
  let ?h = "sampleHPA 3"
  have d: "GetAnnotation ?h (HPAContainerBasedCPUExternalMetricNamePrefixAnnotation sampleAnnotation)
      \<noteq> GetAnnotation ?h (HPAContainerBasedMemoryExternalMetricNamePrefixAnnotation sampleAnnotation)"
    by (simp add: GetAnnotation_def sampleHPA_def sampleAnnotation_def)
  obtain hpa' where r: "updateHPATargetValue sampleAnnotation ?h ''api'' ResourceCPU 60
      = Returns (hpa', None)"
    and m0: "Spec_Metrics hpa' ! 0 = utilizationMetric ''api'' ''cpu'' 60"
    using sample_rewrites[of 3] by (auto simp: ResourceCPU_def split: exec.splits prod.splits option.splits)
  have len: "length (Spec_Metrics ?h) = 4" by (simp add: sampleHPA_def)
  have w: "metricSpecFor sampleAnnotation ?h ''worker'' ResourceCPU (Spec_Metrics ?h ! 2)"
    by (simp add: metricSpecFor_def sampleHPA_def utilizationMetric_def ResourceCPU_def)
  have a: "metricSpecFor sampleAnnotation ?h ''api'' ResourceMemory (Spec_Metrics ?h ! 3)"
    by (simp add: metricSpecFor_def sampleHPA_def externalMetricSpec_def ResourceCPU_def
        ResourceMemory_def externalMetricNameFromAnnotation_def GetAnnotation_def
        sampleAnnotation_def)
  from rewrite_leaves_other_metrics[of sampleAnnotation ?h] d
  have f: "\<And>i. i < length (Spec_Metrics ?h) \<Longrightarrow>
      metricSpecFor sampleAnnotation ?h ''worker'' ResourceCPU (Spec_Metrics ?h ! i) \<or>
      metricSpecFor sampleAnnotation ?h ''api'' ResourceMemory (Spec_Metrics ?h ! i) \<Longrightarrow>
      Spec_Metrics hpa' ! i = Spec_Metrics ?h ! i"
    using r by blast
  have "Spec_Metrics hpa' ! 2 = Spec_Metrics ?h ! 2" using f[of 2] w len by simp
  moreover have "Spec_Metrics hpa' ! 3 = Spec_Metrics ?h ! 3" using f[of 3] a len by simp
  ultimately show ?thesis using r m0 by (auto simp: sampleHPA_def)
qed

text \<open>
  C9. The rewrite is idempotent: for every HPA, container, resource kind and target,
  two rewrites in a row leave the HPA, and return the outcome, that one rewrite does
  (also when the rewrite returns the naming error or panics).
\<close>

theorem rewrite_idempotent:
  "updateHPATargetValueTwice ann hpa containerName k targetValue =
   updateHPATargetValue ann hpa containerName k targetValue"
proof -
  define ms1 where
    "ms1 = map (setAverageUtilization containerName k targetValue) (Spec_Metrics hpa)"
  have ms1: "map (setAverageUtilization containerName k targetValue) ms1 = ms1"
    unfolding ms1_def by (rule map_setAverageUtilization_idem)
  show ?thesis
  proof (cases "externalMetricNameFromAnnotation ann hpa containerName k")
    case (Inl e)
    then show ?thesis
      using ms1
      by (simp add: updateHPATargetValueTwice_def updateHPATargetValue_def Let_def
          name_ignores_metrics ms1_def[symmetric])
  next
    case (Inr n)
    show ?thesis
    proof (cases "setExternalValues n targetValue ms1")
      case Panics
      with Inr show ?thesis
        by (simp add: updateHPATargetValueTwice_def updateHPATargetValue_def Let_def
            name_ignores_metrics ms1_def[symmetric])
    next
      case (Returns ms2)
      have "map (setAverageUtilization containerName k targetValue) ms2 = ms2"
        by (rule setExternalValues_keeps_utilization[OF Returns ms1])
      moreover have "setExternalValues n targetValue ms2 = Returns ms2"
        by (rule setExternalValues_idem[OF Returns])
      ultimately show ?thesis using Inr Returns
        by (simp add: updateHPATargetValueTwice_def updateHPATargetValue_def Let_def
            name_ignores_metrics ms1_def[symmetric])
    qed
  qed
qed

theorem rewrite_idempotent_witness:
  "updateHPATargetValueTwice sampleAnnotation (sampleHPA 3) ''api'' ''cpu'' 60
     = Returns ((sampleHPA 3)\<lparr>Spec_Metrics :=
        [utilizationMetric ''api'' ''cpu'' 60,
         externalMetricSpec ''datadogmetric@default:app-cpu-api''
           \<lparr>Amount = 60, Scale = 0, QuantityFormat = DecimalSI\<rparr>,
         utilizationMetric ''worker'' ''cpu'' 50,
         externalMetricSpec ''datadogmetric@default:app-memory-api'' MustParse_90]\<rparr>, None)"
  using rewrite_idempotent[of sampleAnnotation "sampleHPA 3" "''api''" "''cpu''" 60]
    sample_rewrites[of 3]
  by (simp split: exec.splits prod.splits option.splits)

end
